theory Spec2Isabelle
  imports Complex_Main "HOL-Library.Code_Target_Nat"
begin

section \<open>Text: Python strings, whitespace, decimal digits\<close>

text \<open>
  A Python \<^verbatim>\<open>str\<close> is a sequence of Unicode code points, so a string is a list of
  natural numbers here. The Korean literals of \<^verbatim>\<open>risk_utils.py\<close> are written as their
  code points and named after their romanisation.
\<close>

type_synonym ustring = "nat list"

datatype error = AttributeError | IndexError | KeyError | TypeError | ValueError
  | ConnectionError | PatternNotLiteral

text \<open>
  \<^verbatim>\<open>str.isspace\<close>, which is also the class \<^verbatim>\<open>\s\<close> of \<^verbatim>\<open>re\<close> on \<^verbatim>\<open>str\<close> patterns and
  the separator set of \<^verbatim>\<open>str.split()\<close> and \<^verbatim>\<open>str.strip()\<close>.
\<close>

definition isspace :: "nat \<Rightarrow> bool" where
  "isspace c \<longleftrightarrow>
     (9 \<le> c \<and> c \<le> 13) \<or> (28 \<le> c \<and> c \<le> 32) \<or> c = 133 \<or> c = 160 \<or> c = 5760 \<or>
     (8192 \<le> c \<and> c \<le> 8202) \<or> c = 8232 \<or> c = 8233 \<or> c = 8239 \<or> c = 8287 \<or> c = 12288"

text \<open>
  The class \<^verbatim>\<open>\d\<close> of \<^verbatim>\<open>re\<close> on \<^verbatim>\<open>str\<close> patterns: the code points of general
  category Nd (table of Unicode 14, the one of CPython 3.11), as inclusive ranges. Each
  range is a run of the digits 0 to 9, repeated five times in the mathematical block.
\<close>

definition decimal_ranges :: "(nat \<times> nat) list" where
  "decimal_ranges =
    [(48, 57), (1632, 1641), (1776, 1785), (1984, 1993), (2406, 2415), (2534, 2543),
     (2662, 2671), (2790, 2799), (2918, 2927), (3046, 3055), (3174, 3183), (3302, 3311),
     (3430, 3439), (3558, 3567), (3664, 3673), (3792, 3801), (3872, 3881), (4160, 4169),
     (4240, 4249), (6112, 6121), (6160, 6169), (6470, 6479), (6608, 6617), (6784, 6793),
     (6800, 6809), (6992, 7001), (7088, 7097), (7232, 7241), (7248, 7257), (42528, 42537),
     (43216, 43225), (43264, 43273), (43472, 43481), (43504, 43513), (43600, 43609),
     (44016, 44025), (65296, 65305), (66720, 66729), (68912, 68921), (69734, 69743),
     (69872, 69881), (69942, 69951), (70096, 70105), (70384, 70393), (70736, 70745),
     (70864, 70873), (71248, 71257), (71360, 71369), (71472, 71481), (71904, 71913),
     (72016, 72025), (72784, 72793), (73040, 73049), (73120, 73129), (92768, 92777),
     (92864, 92873), (93008, 93017), (120782, 120831), (123200, 123209), (123632, 123641),
     (125264, 125273), (130032, 130041)]"

fun decimal_in :: "(nat \<times> nat) list \<Rightarrow> nat \<Rightarrow> nat option" where
  "decimal_in [] c = None"
| "decimal_in ((lo, hi) # rs) c =
     (if lo \<le> c \<and> c \<le> hi then Some ((c - lo) mod 10) else decimal_in rs c)"

definition decimal_value :: "nat \<Rightarrow> nat option" where
  "decimal_value c = decimal_in decimal_ranges c"

definition isdecimal :: "nat \<Rightarrow> bool" where
  "isdecimal c \<longleftrightarrow> decimal_value c \<noteq> None"

text \<open>\<^verbatim>\<open>s.split()\<close>: the maximal runs of non-whitespace characters, in order.\<close>

fun split_ws :: "ustring \<Rightarrow> ustring \<Rightarrow> ustring list" where
  "split_ws cur [] = (if cur = [] then [] else [cur])"
| "split_ws cur (c # cs) =
     (if isspace c then (if cur = [] then split_ws [] cs else cur # split_ws [] cs)
      else split_ws (cur @ [c]) cs)"

definition str_split :: "ustring \<Rightarrow> ustring list" where
  "str_split s = split_ws [] s"

text \<open>\<^verbatim>\<open>s.strip()\<close>: leading and trailing whitespace removed.\<close>

definition str_strip :: "ustring \<Rightarrow> ustring" where
  "str_strip s = rev (dropWhile isspace (rev (dropWhile isspace s)))"

text \<open>\<^verbatim>\<open>kw in text\<close> on strings: \<^verbatim>\<open>kw\<close> occurs as a contiguous block.\<close>

fun starts_with :: "ustring \<Rightarrow> ustring \<Rightarrow> bool" where
  "starts_with [] s = True"
| "starts_with (k # ks) [] = False"
| "starts_with (k # ks) (c # cs) = (k = c \<and> starts_with ks cs)"

fun str_in :: "ustring \<Rightarrow> ustring \<Rightarrow> bool" where
  "str_in kw [] = (kw = [])"
| "str_in kw (c # cs) = (starts_with kw (c # cs) \<or> str_in kw cs)"

text \<open>
  Indexing \<^verbatim>\<open>xs[i]\<close> raises IndexError out of range and counts a negative index from
  the end; a slice \<^verbatim>\<open>xs[lo:hi]\<close> never raises and clips its bounds.
\<close>

definition py_index :: "'a list \<Rightarrow> int \<Rightarrow> error + 'a" where
  "py_index xs i =
     (if 0 \<le> i \<and> i < int (length xs) then Inr (xs ! nat i)
      else if i < 0 \<and> - int (length xs) \<le> i then Inr (xs ! nat (int (length xs) + i))
      else Inl IndexError)"

definition clip_index :: "nat \<Rightarrow> int \<Rightarrow> nat" where
  "clip_index n i = (if i < 0 then nat (max 0 (int n + i)) else min n (nat i))"

definition py_slice :: "'a list \<Rightarrow> int \<Rightarrow> int \<Rightarrow> 'a list" where
  "py_slice xs lo hi =
     (let a = clip_index (length xs) lo; b = clip_index (length xs) hi
      in take (b - a) (drop a xs))"

definition py_slice_from :: "'a list \<Rightarrow> int \<Rightarrow> 'a list" where
  "py_slice_from xs lo = drop (clip_index (length xs) lo) xs"

section \<open>Regular expressions\<close>

text \<open>
  The patterns of the source use literals, the classes \<^verbatim>\<open>\s\<close>, \<^verbatim>\<open>\d\<close>, \<^verbatim>\<open>[^\n]\<close> and
  \<^verbatim>\<open>[a-b]\<close>, greedy repetition of a class, concatenation, alternation and one capture
  group. \<^verbatim>\<open>re\<close> is a backtracking matcher: \<open>rx_run\<close> lists, for a start state, every way
  the pattern can match, in the order the backtracking tries them (a greedy repetition
  offers its longest run first, an alternation its left branch first). A state is the
  text still to read and the text of group 1, if it has been captured.
\<close>

datatype cls = Chr nat | Digit | Space | NotNewline | Between nat nat

fun in_cls :: "cls \<Rightarrow> nat \<Rightarrow> bool" where
  "in_cls (Chr k) c = (c = k)"
| "in_cls Digit c = isdecimal c"
| "in_cls Space c = isspace c"
| "in_cls NotNewline c = (c \<noteq> 10)"
| "in_cls (Between lo hi) c = (lo \<le> c \<and> c \<le> hi)"

datatype rx = Eps | One cls | Rep cls nat "nat option" | Cat rx rx | Alt rx rx | Grp rx

type_synonym rx_state = "ustring \<times> ustring option"

definition run_length :: "cls \<Rightarrow> nat option \<Rightarrow> ustring \<Rightarrow> nat" where
  "run_length c bound s =
     (let n = length (takeWhile (in_cls c) s)
      in case bound of None \<Rightarrow> n | Some b \<Rightarrow> min b n)"

fun rx_run :: "rx \<Rightarrow> rx_state \<Rightarrow> rx_state list" where
  "rx_run Eps st = [st]"
| "rx_run (One c) (s, g) =
     (case s of [] \<Rightarrow> [] | x # xs \<Rightarrow> if in_cls c x then [(xs, g)] else [])"
| "rx_run (Rep c lo bound) (s, g) =
     map (\<lambda>k. (drop k s, g)) (rev [lo ..< Suc (run_length c bound s)])"
| "rx_run (Cat a b) st = concat (map (rx_run b) (rx_run a st))"
| "rx_run (Alt a b) st = rx_run a st @ rx_run b st"
| "rx_run (Grp a) (s, g) =
     map (\<lambda>(s', _). (s', Some (take (length s - length s') s))) (rx_run a (s, g))"

primrec rx_seq :: "rx list \<Rightarrow> rx" where
  "rx_seq [] = Eps"
| "rx_seq (r # rs) = Cat r (rx_seq rs)"

definition lit :: "ustring \<Rightarrow> rx" where
  "lit s = rx_seq (map (\<lambda>c. One (Chr c)) s)"

text \<open>
  \<^verbatim>\<open>re.match(p, s)\<close>: the first way \<open>p\<close> matches at the start of \<open>s\<close>, as the matched
  text and group 1. \<^verbatim>\<open>re.search(p, s)\<close>: the same at the leftmost position that has a
  match. \<^verbatim>\<open>re.findall(p, s)\<close>: the successive matches from left to right, each search
  resuming where the last match ended (\<open>skip\<close> counts the characters the last match still
  covers); it lists group 1 where the pattern has a group and the matched text otherwise.
  No pattern of the source matches the empty string.
\<close>

definition rx_match :: "rx \<Rightarrow> ustring \<Rightarrow> (ustring \<times> ustring option) option" where
  "rx_match p s =
     (case rx_run p (s, None) of
        [] \<Rightarrow> None
      | (s', g) # _ \<Rightarrow> Some (take (length s - length s') s, g))"

fun rx_search :: "rx \<Rightarrow> ustring \<Rightarrow> (ustring \<times> ustring option) option" where
  "rx_search p [] = rx_match p []"
| "rx_search p (c # cs) =
     (case rx_match p (c # cs) of Some m \<Rightarrow> Some m | None \<Rightarrow> rx_search p cs)"

fun findall_from :: "rx \<Rightarrow> nat \<Rightarrow> ustring \<Rightarrow> ustring list" where
  "findall_from p skip [] = []"
| "findall_from p skip (c # cs) =
     (if 0 < skip then findall_from p (skip - 1) cs
      else case rx_match p (c # cs) of
             None \<Rightarrow> findall_from p 0 cs
           | Some (m, g) \<Rightarrow>
               (case g of None \<Rightarrow> m | Some t \<Rightarrow> t) # findall_from p (length m - 1) cs)"

definition rx_findall :: "rx \<Rightarrow> ustring \<Rightarrow> ustring list" where
  "rx_findall p s = findall_from p 0 s"

section \<open>Address and building name\<close>

text \<open>
  The syllables \<^verbatim>\<open>dong\<close>, \<^verbatim>\<open>je\<close>, \<^verbatim>\<open>ho\<close> and \<^verbatim>\<open>cheung\<close> of the patterns; the four syllables
  of the marker (\<^verbatim>\<open>jip\<close>, \<^verbatim>\<open>hap\<close>, \<^verbatim>\<open>geon\<close>, \<^verbatim>\<open>mul\<close>) are written in its pattern.
\<close>

definition DONG :: nat where "DONG = 46041"
definition JE :: nat where "JE = 51228"
definition HO :: nat where "HO = 54840"
definition CHEUNG :: nat where "CHEUNG = 52789"

text \<open>\<^verbatim>\<open>\[\s*J\s*H\s*G\s*M\s*\]\s*([^\n]+)\<close> with the syllables of the marker for J, H, G, M.\<close>

definition marker_rx :: rx where
  "marker_rx = rx_seq
     [One (Chr 91), Rep Space 0 None, One (Chr 51665), Rep Space 0 None,
      One (Chr 54633), Rep Space 0 None, One (Chr 44148), Rep Space 0 None,
      One (Chr 47932), Rep Space 0 None, One (Chr 93), Rep Space 0 None,
      Grp (Rep NotNewline 1 None)]"

text \<open>\<^verbatim>\<open>\d{1,4}-?\d*\<close>\<close>

definition lot_rx :: rx where
  "lot_rx = rx_seq [Rep Digit 1 (Some 4), Rep (Chr 45) 0 (Some 1), Rep Digit 0 None]"

text \<open>\<^verbatim>\<open>(je|\d+ho|cheung|dong|\d+)\<close>\<close>

definition suffix_rx :: rx where
  "suffix_rx =
     Grp (Alt (One (Chr JE))
         (Alt (Cat (Rep Digit 1 None) (One (Chr HO)))
         (Alt (One (Chr CHEUNG))
         (Alt (One (Chr DONG))
              (Rep Digit 1 None)))))"

text \<open>\<^verbatim>\<open>clean_korean_text\<close>: the Hangul syllables U+AC00 to U+D7A3 of the text, joined.\<close>

definition clean_korean_text :: "ustring \<Rightarrow> ustring" where
  "clean_korean_text text = concat (rx_findall (One (Between 44032 55203)) text)"

text \<open>
  The scan of the tokens, \<^verbatim>\<open>for i, word in enumerate(words)\<close>: \<open>i\<close> is the index of the
  head of the list, \<open>idx\<close> the current \<^verbatim>\<open>dong_end_idx\<close>; a token that \<^verbatim>\<open>re.match\<close>es the
  lot-number pattern sets the index to \<open>i - 1\<close> and ends the loop.
\<close>

definition has_dong :: "ustring \<Rightarrow> bool" where
  "has_dong word \<longleftrightarrow> str_in [DONG] word"

definition lot_match :: "ustring \<Rightarrow> bool" where
  "lot_match word \<longleftrightarrow> rx_match lot_rx word \<noteq> None"

fun scan_tokens :: "int \<Rightarrow> int \<Rightarrow> ustring list \<Rightarrow> int" where
  "scan_tokens i idx [] = idx"
| "scan_tokens i idx (word # rest) =
     (let idx' = (if has_dong word then i else idx)
      in if lot_match word then i - 1 else scan_tokens (i + 1) idx' rest)"

definition dong_end_idx :: "ustring list \<Rightarrow> int" where
  "dong_end_idx words = scan_tokens 0 (- 1) words"

text \<open>
  The function from the recognised text on: \<open>pages\<close> are the texts the recogniser returned
  for the pages of the document, each followed by a newline in \<^verbatim>\<open>text\<close>. The result is
  the returned pair, \<open>None\<close> for Python's \<^verbatim>\<open>None\<close>.
\<close>

definition parse_words :: "ustring list \<Rightarrow> error + (ustring option \<times> ustring option)" where
  "parse_words words =
     (let idx = dong_end_idx words in
      if idx < 3 then Inr (None, None)
      else
        (case py_index words 0 of Inl e \<Rightarrow> Inl e | Inr region \<Rightarrow>
        (case py_index words 1 of Inl e \<Rightarrow> Inl e | Inr w1 \<Rightarrow>
        (case py_index words 2 of Inl e \<Rightarrow> Inl e | Inr w2 \<Rightarrow>
          (let citygu = w1 @ w2;
               dong = concat (py_slice words 3 (idx + 1));
               address = region @ [32] @ citygu @ [32] @ dong;
               building_words = py_slice_from words (idx + 2);
               cleaned = filter (\<lambda>w. rx_search suffix_rx w = None) building_words;
               building_name = clean_korean_text (concat cleaned)
           in Inr (Some (str_strip address), Some building_name))))))"

definition document_text :: "ustring list \<Rightarrow> ustring" where
  "document_text pages = concat (map (\<lambda>page_text. page_text @ [10]) pages)"

definition extract_address_and_building_from_pdf ::
    "ustring list \<Rightarrow> error + (ustring option \<times> ustring option)" where
  "extract_address_and_building_from_pdf pages =
     (let text = document_text pages in
      case rx_search marker_rx text of
        None \<Rightarrow> Inr (None, None)
      | Some (_, group1) \<Rightarrow>
          (case group1 of
             None \<Rightarrow> Inl AttributeError
           | Some g \<Rightarrow> parse_words (str_split (str_strip g))))"

text \<open>
  The boundary as the specification words it: the token before the first token that
  matches the lot-number pattern if there is one, the last token that contains \<^verbatim>\<open>dong\<close>
  otherwise, and the initial \<open>-1\<close> when there is neither.
\<close>

fun first_index :: "('a \<Rightarrow> bool) \<Rightarrow> 'a list \<Rightarrow> nat option" where
  "first_index P [] = None"
| "first_index P (x # xs) = (if P x then Some 0 else map_option Suc (first_index P xs))"

fun last_index :: "('a \<Rightarrow> bool) \<Rightarrow> 'a list \<Rightarrow> nat option" where
  "last_index P [] = None"
| "last_index P (x # xs) =
     (case last_index P xs of Some k \<Rightarrow> Some (Suc k) | None \<Rightarrow> if P x then Some 0 else None)"

definition spec_boundary :: "ustring list \<Rightarrow> int" where
  "spec_boundary words =
     (case first_index lot_match words of
        Some j \<Rightarrow> int j - 1
      | None \<Rightarrow> (case last_index has_dong words of Some k \<Rightarrow> int k | None \<Rightarrow> - 1))"

definition spacefree :: "ustring \<Rightarrow> bool" where
  "spacefree w \<longleftrightarrow> list_all (\<lambda>c. \<not> isspace c) w"

section \<open>Administrative code\<close>

text \<open>
  The table \<^verbatim>\<open>pd.read_csv(csv_path, dtype=str)\<close> with its four columns: a cell is a
  string, or \<open>None\<close> for the NaN that pandas reads from a blank cell. A comparison of a NaN
  cell with a string is false; slicing a NaN code raises TypeError.
\<close>

record lawd_row =
  sido :: "ustring option"
  sigungu :: "ustring option"
  eupmyeondong :: "ustring option"
  lawd_code :: "ustring option"

definition lookup_lawd ::
    "ustring \<Rightarrow> ustring \<Rightarrow> ustring \<Rightarrow> lawd_row list \<Rightarrow> error + ustring option" where
  "lookup_lawd p0 p1 p2 df =
     (let match = filter (\<lambda>row. sido row = Some p0 \<and> sigungu row = Some p1 \<and>
                               eupmyeondong row = Some p2) df in
      if match \<noteq> [] then
        (case py_index match 0 of
           Inl e \<Rightarrow> Inl e
         | Inr row \<Rightarrow>
             (case lawd_code row of
                None \<Rightarrow> Inl TypeError
              | Some code \<Rightarrow> Inr (Some (py_slice code 0 5))))
      else Inr None)"

definition get_lawd_cd :: "ustring \<Rightarrow> lawd_row list \<Rightarrow> error + ustring option" where
  "get_lawd_cd address df =
     (let parts = str_split address in
      if length parts < 3 then Inr None
      else
        (case py_index parts 0 of Inl e \<Rightarrow> Inl e | Inr p0 \<Rightarrow>
        (case py_index parts 1 of Inl e \<Rightarrow> Inl e | Inr p1 \<Rightarrow>
        (case py_index parts 2 of Inl e \<Rightarrow> Inl e | Inr p2 \<Rightarrow>
           lookup_lawd p0 p1 p2 df))))"

section \<open>Trade records\<close>

text \<open>
  What the function takes from its libraries is a parameter of the model:
  \<^item> \<open>to_float\<close> is \<^verbatim>\<open>float(s)\<close>, \<open>None\<close> where it raises ValueError;
  \<^item> \<open>abs_diff x a\<close> is the cell \<^verbatim>\<open>abs(x - a)\<close> of the area-difference column; its type
    carries the order in which \<^verbatim>\<open>sort_values\<close> arranges that column when ascending
    (numeric order, NaN last);
  \<^item> \<open>to_datetime col s\<close> is the cell that \<^verbatim>\<open>pd.to_datetime(col, errors="coerce")\<close> has
    for the string \<open>s\<close> of the column \<open>col\<close>, \<open>None\<close> for NaT.
\<close>

record ('f, 'k, 't) pyenv =
  to_float :: "ustring \<Rightarrow> 'f option"
  abs_diff :: "'f \<Rightarrow> 'f \<Rightarrow> 'k"
  to_datetime :: "ustring list \<Rightarrow> ustring \<Rightarrow> 't option"

text \<open>
  An \<^verbatim>\<open><item>\<close> element of a response: for each tag the function reads, the text of
  \<^verbatim>\<open>item.find(tag)\<close>, or \<open>None\<close> when the element has no such tag (\<^verbatim>\<open>find\<close> returns
  \<^verbatim>\<open>None\<close>, whose \<^verbatim>\<open>.text\<close> raises AttributeError).
\<close>

record item =
  offiNm :: "ustring option"
  excluUseAr :: "ustring option"
  dealYear :: "ustring option"
  dealMonth :: "ustring option"
  dealDay :: "ustring option"
  dealAmount :: "ustring option"

text \<open>The dictionary appended to \<^verbatim>\<open>result\<close>: complex name, area, contract date, amount.\<close>

record 'f trade =
  danji :: ustring
  area :: 'f
  contract :: ustring
  amount :: ustring

definition tag_text :: "ustring option \<Rightarrow> error + ustring" where
  "tag_text t = (case t of None \<Rightarrow> Inl AttributeError | Some s \<Rightarrow> Inr s)"

definition item_to_trade :: "('f, 'k, 't) pyenv \<Rightarrow> item \<Rightarrow> error + 'f trade" where
  "item_to_trade E it =
     (case tag_text (offiNm it) of Inl e \<Rightarrow> Inl e | Inr nm \<Rightarrow>
     (case tag_text (excluUseAr it) of Inl e \<Rightarrow> Inl e | Inr ar \<Rightarrow>
     (case to_float E ar of None \<Rightarrow> Inl ValueError | Some a \<Rightarrow>
     (case tag_text (dealYear it) of Inl e \<Rightarrow> Inl e | Inr y \<Rightarrow>
     (case tag_text (dealMonth it) of Inl e \<Rightarrow> Inl e | Inr m \<Rightarrow>
     (case tag_text (dealDay it) of Inl e \<Rightarrow> Inl e | Inr d \<Rightarrow>
     (case tag_text (dealAmount it) of Inl e \<Rightarrow> Inl e | Inr amt \<Rightarrow>
        Inr \<lparr>danji = nm, area = a, contract = y @ [45] @ m @ [45] @ d,
             amount = amt\<rparr>)))))))"

text \<open>
  \<^verbatim>\<open>for item in items: try: result.append(...) except: continue\<close>: an item whose
  dictionary cannot be built leaves \<^verbatim>\<open>result\<close> as it is.
\<close>

fun accumulate :: "('f, 'k, 't) pyenv \<Rightarrow> 'f trade list \<Rightarrow> item list \<Rightarrow> 'f trade list" where
  "accumulate E result [] = result"
| "accumulate E result (it # items) =
     (case item_to_trade E it of
        Inl _ \<Rightarrow> accumulate E result items
      | Inr d \<Rightarrow> accumulate E (result @ [d]) items)"

text \<open>
  The loop over the months: a response is the list of its items, or the exception that
  \<^verbatim>\<open>requests.get\<close> raised, which nothing in the function catches.
\<close>

fun months_loop ::
    "('f, 'k, 't) pyenv \<Rightarrow> 'f trade list \<Rightarrow> (error + item list) list \<Rightarrow> error + 'f trade list" where
  "months_loop E result [] = Inr result"
| "months_loop E result (response # rest) =
     (case response of
        Inl e \<Rightarrow> Inl e
      | Inr items \<Rightarrow> months_loop E (accumulate E result items) rest)"

text \<open>
  \<^verbatim>\<open>Series.str.contains(building_name)\<close> searches for its argument as a regular
  expression. A pattern without any of the characters \<^verbatim>\<open>.^$*+?{}[]\|()\<close> is a sequence of
  literals, and the search is the substring test; any other pattern is not covered by this
  model, which answers \<open>PatternNotLiteral\<close> for it.
\<close>

definition literal_pattern :: "ustring \<Rightarrow> bool" where
  "literal_pattern p \<longleftrightarrow>
     list_all (\<lambda>c. c \<notin> set [46, 94, 36, 42, 43, 63, 123, 125, 91, 93, 92, 124, 40, 41]) p"

definition str_contains :: "ustring \<Rightarrow> ustring \<Rightarrow> error + bool" where
  "str_contains pat s = (if literal_pattern pat then Inr (str_in pat s) else Inl PatternNotLiteral)"

text \<open>
  A row of \<^verbatim>\<open>df_filtered\<close> once the function has added the area difference, parsed the
  contract dates and dropped the rows whose date did not parse.
\<close>

record ('f, 'k, 't) candidate =
  c_danji :: ustring
  c_area :: 'f
  c_date :: 't
  c_amount :: ustring
  c_diff :: 'k

definition with_columns :: "'f trade \<Rightarrow> 'k \<Rightarrow> 't \<Rightarrow> ('f, 'k, 't) candidate" where
  "with_columns d k t =
     \<lparr>c_danji = danji d, c_area = area d, c_date = t, c_amount = amount d, c_diff = k\<rparr>"

text \<open>
  \<^verbatim>\<open>sort_values([diff, date], ascending=[True, False])\<close>: a stable sort on the area
  difference ascending, then the contract date descending.
\<close>

definition sorts_before ::
    "('f, 'k::linorder, 't::linorder) candidate \<Rightarrow> ('f, 'k, 't) candidate \<Rightarrow> bool" where
  "sorts_before a b \<longleftrightarrow> c_diff a < c_diff b \<or> (c_diff a = c_diff b \<and> c_date b \<le> c_date a)"

fun insert_row ::
    "('f, 'k::linorder, 't::linorder) candidate \<Rightarrow> ('f, 'k, 't) candidate list
       \<Rightarrow> ('f, 'k, 't) candidate list" where
  "insert_row x [] = [x]"
| "insert_row x (y # ys) = (if sorts_before x y then x # y # ys else y # insert_row x ys)"

definition sort_values ::
    "('f, 'k::linorder, 't::linorder) candidate list \<Rightarrow> ('f, 'k, 't) candidate list" where
  "sort_values rows = foldr insert_row rows []"

text \<open>
  The function from the responses on: \<open>fetch month\<close> is the outcome of the request for
  that month. A DataFrame built from an empty list has no columns, so selecting the
  complex-name column raises KeyError. \<open>df_filtered\<close> is the frame just before the
  emptiness test: the rows whose complex name matches, with the area difference, the
  contract date parsed within its column, and the rows without a date dropped.
\<close>

definition df_filtered ::
    "('f, 'k, 't) pyenv \<Rightarrow> 'f trade list \<Rightarrow> ustring \<Rightarrow> 'f \<Rightarrow> ('f, 'k, 't) candidate list" where
  "df_filtered E result building_name area_q =
     (let named = filter (\<lambda>d. str_in building_name (danji d)) result;
          col = map contract named
      in concat (map (\<lambda>d. case to_datetime E col (contract d) of
                             None \<Rightarrow> []
                           | Some t \<Rightarrow> [with_columns d (abs_diff E (area d) area_q) t])
                     named))"

definition select_latest ::
    "('f, 'k::linorder, 't::linorder) pyenv \<Rightarrow> 'f trade list \<Rightarrow> ustring \<Rightarrow> 'f
       \<Rightarrow> error + ('f, 'k, 't) candidate option" where
  "select_latest E result building_name area_q =
     (if result = [] then Inl KeyError
      else if \<not> literal_pattern building_name then Inl PatternNotLiteral
      else
        (let rows = df_filtered E result building_name area_q
         in if rows = [] then Inr None
            else (case sort_values rows of [] \<Rightarrow> Inr None | latest # _ \<Rightarrow> Inr (Some latest))))"

definition get_latest_officetel_trade ::
    "('f, 'k::linorder, 't::linorder) pyenv \<Rightarrow> (nat \<Rightarrow> error + item list) \<Rightarrow> ustring \<Rightarrow> 'f
       \<Rightarrow> error + ('f, 'k, 't) candidate option" where
  "get_latest_officetel_trade E fetch building_name area_q =
     (case months_loop E [] (map fetch [1 ..< 13]) of
        Inl e \<Rightarrow> Inl e
      | Inr result \<Rightarrow> select_latest E result building_name area_q)"

text \<open>
  The candidates as the specification words them: the accumulated records whose complex
  name contains the building name and whose contract date parses, each with its area
  difference and its date.
\<close>

definition spec_candidates ::
    "('f, 'k, 't) pyenv \<Rightarrow> 'f trade list \<Rightarrow> ustring \<Rightarrow> 'f \<Rightarrow> ('f, 'k, 't) candidate set" where
  "spec_candidates E result building_name area_q =
     {with_columns d (abs_diff E (area d) area_q) t | d t.
        d \<in> set result \<and> str_in building_name (danji d) \<and>
        to_datetime E (map contract (filter (\<lambda>d. str_in building_name (danji d)) result))
          (contract d) = Some t}"

section \<open>Features\<close>

definition SINTAK :: ustring where "SINTAK = [49888, 53441]"
definition GAAPRYU :: ustring where "GAAPRYU = [44032, 50517, 47448]"
definition APRYU :: ustring where "APRYU = [50517, 47448]"
definition SOYUGWON_IJEON :: ustring where "SOYUGWON_IJEON = [49548, 50976, 44428, 51060, 51204]"
definition IMCHAGWON_DEUNGGI_MYEONGRYEONG :: ustring where
  "IMCHAGWON_DEUNGGI_MYEONGRYEONG = [51076, 52264, 44428, 46321, 44592, 47749, 47161]"
definition GEUNJEODANGGWON_SEOLJEONGGEUM :: ustring where
  "GEUNJEODANGGWON_SEOLJEONGGEUM = [44540, 51200, 45817, 44428, 49444, 51221, 44552]"

text \<open>\<^verbatim>\<open>LABEL(\d+,\d+|\d+)\<close> with the lien label for LABEL.\<close>

definition lien_rx :: rx where
  "lien_rx =
     Cat (lit GEUNJEODANGGWON_SEOLJEONGGEUM)
         (Grp (Alt (rx_seq [Rep Digit 1 None, One (Chr 44), Rep Digit 1 None])
                   (Rep Digit 1 None)))"

text \<open>
  \<^verbatim>\<open>int(s)\<close> on a string of decimal digits, which is what the lien pattern captures once
  the comma is removed: the digits' value, and ValueError beyond the 4300 digits that
  CPython converts by default. A string with any other character is outside what the
  function passes to \<^verbatim>\<open>int\<close> and is answered with ValueError as well.
\<close>

fun digits_value :: "nat \<Rightarrow> ustring \<Rightarrow> nat option" where
  "digits_value acc [] = Some acc"
| "digits_value acc (c # cs) =
     (case decimal_value c of None \<Rightarrow> None | Some v \<Rightarrow> digits_value (10 * acc + v) cs)"

definition py_int :: "ustring \<Rightarrow> error + nat" where
  "py_int s =
     (if s = [] \<or> 4300 < length s then Inl ValueError
      else case digits_value 0 s of None \<Rightarrow> Inl ValueError | Some n \<Rightarrow> Inr n)"

fun ints_of :: "ustring list \<Rightarrow> error + nat list" where
  "ints_of [] = Inr []"
| "ints_of (m # ms) =
     (case py_int (filter (\<lambda>c. c \<noteq> 44) m) of
        Inl e \<Rightarrow> Inl e
      | Inr v \<Rightarrow> (case ints_of ms of Inl e \<Rightarrow> Inl e | Inr vs \<Rightarrow> Inr (v # vs)))"

text \<open>
  The quotient \<^verbatim>\<open>max_value / 1_0000_0000\<close> is the exact rational here; Python returns the
  double nearest to it.
\<close>

definition normalize_mortgage :: "ustring \<Rightarrow> error + rat" where
  "normalize_mortgage text =
     (let matches = rx_findall lien_rx text in
      case ints_of matches of
        Inl e \<Rightarrow> Inl e
      | Inr vals \<Rightarrow>
          (case vals of
             [] \<Rightarrow> Inr 0
           | v # vs \<Rightarrow> Inr (of_nat (fold max vs v) / 100000000)))"

definition contains :: "ustring \<Rightarrow> ustring \<Rightarrow> nat" where
  "contains text keyword = (if str_in keyword text then 1 else 0)"

record 'r features =
  f_jeonse_ratio :: 'r
  f_trust :: nat
  f_mortgage :: rat
  f_provisional_seizure :: nat
  f_seizure :: nat
  f_ownership_transfer :: nat
  f_lease_registration :: nat

definition parse_ocr_text_to_features :: "ustring \<Rightarrow> 'r \<Rightarrow> error + 'r features" where
  "parse_ocr_text_to_features text0 jeonse_ratio =
     (let text = filter (\<lambda>c. c \<noteq> 32) text0 in
      case normalize_mortgage text of
        Inl e \<Rightarrow> Inl e
      | Inr m \<Rightarrow>
          Inr \<lparr>f_jeonse_ratio = jeonse_ratio,
               f_trust = contains text SINTAK,
               f_mortgage = m,
               f_provisional_seizure = contains text GAAPRYU,
               f_seizure = contains text APRYU,
               f_ownership_transfer = contains text SOYUGWON_IJEON,
               f_lease_registration = contains text IMCHAGWON_DEUNGGI_MYEONGRYEONG\<rparr>)"

section \<open>Risk level\<close>

definition VERY_HIGH :: ustring where "VERY_HIGH = [47588, 50864, 32, 45458, 51020]"
definition HIGH :: ustring where "HIGH = [45458, 51020]"
definition MEDIUM :: ustring where "MEDIUM = [48372, 53685]"
definition LOW :: ustring where "LOW = [45230, 51020]"
definition VERY_LOW :: ustring where "VERY_LOW = [47588, 50864, 32, 45230, 51020]"

definition MSG_VERY_HIGH :: ustring where
  "MSG_VERY_HIGH =
     [9888, 65039, 32, 48372, 51613, 44552, 32, 48152, 54872, 51060, 32, 50612, 47140,
      50872, 32, 44032, 45733, 49457, 51060, 32, 47588, 50864, 32, 45458, 49845, 45768,
      45796, 46]"
definition MSG_HIGH :: ustring where
  "MSG_HIGH =
     [9888, 65039, 32, 48372, 51613, 44552, 32, 48152, 54872, 50640, 32, 50948, 54744, 32,
      50836, 49548, 44032, 32, 51316, 51116, 54633, 45768, 45796, 46]"
definition MSG_MEDIUM :: ustring where
  "MSG_MEDIUM =
     [9888, 65039, 32, 51068, 48512, 32, 50948, 54744, 32, 50836, 49548, 44032, 32, 51080,
      49845, 45768, 45796, 46]"
definition MSG_LOW :: ustring where
  "MSG_LOW =
     [9989, 32, 50948, 54744, 32, 50836, 49548, 45716, 32, 51201, 51008, 32, 54200, 51077,
      45768, 45796, 46]"
definition MSG_VERY_LOW :: ustring where
  "MSG_VERY_LOW =
     [9989, 32, 50948, 54744, 32, 50836, 49548, 44032, 32, 44144, 51032, 32, 50630, 49845,
      45768, 45796, 46]"

definition interpret_risk_score :: "real \<Rightarrow> ustring \<times> ustring" where
  "interpret_risk_score score =
     (if score \<ge> 80 then (VERY_HIGH, MSG_VERY_HIGH)
      else if score \<ge> 60 then (HIGH, MSG_HIGH)
      else if score \<ge> 40 then (MEDIUM, MSG_MEDIUM)
      else if score \<ge> 20 then (LOW, MSG_LOW)
      else (VERY_LOW, MSG_VERY_LOW))"

section \<open>A small instance of the library functions\<close>

text \<open>
  For evaluating the trade functions on concrete records: areas written as whole numbers,
  dates compared as the number their digits spell.
\<close>

definition sample_env :: "(int, int, nat) pyenv" where
  "sample_env =
     \<lparr>to_float = (\<lambda>s. if s = [] then None else map_option int (digits_value 0 s)),
      abs_diff = (\<lambda>x a. \<bar>x - a\<bar>),
      to_datetime = (\<lambda>col s. digits_value 0 (filter (\<lambda>c. c \<noteq> 45) s))\<rparr>"

section \<open>Properties of the text functions and of the token scan\<close>

lemma first_index_Some:
  "first_index P xs = Some j \<longleftrightarrow> j < length xs \<and> P (xs ! j) \<and> (\<forall>k<j. \<not> P (xs ! k))"
proof (induction xs arbitrary: j)
  case Nil
  then show ?case by simp
next
  case (Cons x xs)
  show ?case
  proof (cases "P x")
    case True
    then show ?thesis by (cases j) auto
  next
    case False
    then show ?thesis
      apply (cases j)
      apply (auto simp: Cons.IH nth_Cons' less_Suc_eq_0_disj)
      done
  qed
qed

lemma first_index_None: "first_index P xs = None \<longleftrightarrow> (\<forall>x\<in>set xs. \<not> P x)"
  by (induction xs) auto

lemma last_index_None: "last_index P xs = None \<longleftrightarrow> (\<forall>x\<in>set xs. \<not> P x)"
  by (induction xs) (auto split: option.splits)

lemma last_index_Some:
  "last_index P xs = Some j \<longleftrightarrow> j < length xs \<and> P (xs ! j) \<and> (\<forall>k<length xs. j < k \<longrightarrow> \<not> P (xs ! k))"
proof (induction xs arbitrary: j)
  case Nil
  then show ?case by simp
next
  case (Cons x xs)
  show ?case
  proof (cases "last_index P xs")
    case None
    then have no: "\<forall>y\<in>set xs. \<not> P y" by (simp add: last_index_None)
    show ?thesis
    proof (cases j)
      case 0
      with None no show ?thesis by (auto simp: nth_Cons' )
    next
      case (Suc m)
      with None no show ?thesis by (auto split: if_splits)
    qed
  next
    case (Some k)
    then have k: "k < length xs" "P (xs ! k)" "\<forall>m<length xs. k < m \<longrightarrow> \<not> P (xs ! m)"
      using Cons.IH [of k] by auto
    show ?thesis
    proof (cases j)
      case 0
      with Some k show ?thesis by (auto intro!: exI [of _ "Suc k"])
    next
      case (Suc m)
      with Some show ?thesis
        using Cons.IH [of m] by (auto simp: less_Suc_eq_0_disj)
    qed
  qed
qed

lemma scan_tokens_spec:
  "scan_tokens i idx ws =
     (case first_index lot_match ws of
        Some j \<Rightarrow> i + int j - 1
      | None \<Rightarrow> (case last_index has_dong ws of Some k \<Rightarrow> i + int k | None \<Rightarrow> idx))"
  by (induction ws arbitrary: i idx) (auto simp: Let_def split: option.splits)

lemma scan_tokens_range:
  "scan_tokens i idx ws = idx \<or>
   (i - 1 \<le> scan_tokens i idx ws \<and> scan_tokens i idx ws < i + int (length ws))"
proof (induction ws arbitrary: i idx)
  case Nil
  then show ?case by simp
next
  case (Cons w ws)
  show ?case
  proof (cases "lot_match w")
    case True
    then show ?thesis by simp
  next
    case False
    from Cons.IH [of "i + 1" "if has_dong w then i else idx"] False
    show ?thesis by (auto simp: Let_def split: if_splits)
  qed
qed

lemma dong_end_idx_less: "dong_end_idx ws < int (length ws)"
  using scan_tokens_range [of 0 "- 1" ws] by (auto simp: dong_end_idx_def)

lemma spacefree_Nil [simp]: "spacefree []"
  by (simp add: spacefree_def)

lemma spacefree_snoc: "spacefree cur \<Longrightarrow> \<not> isspace c \<Longrightarrow> spacefree (cur @ [c])"
  by (simp add: spacefree_def)

lemma split_ws_tokens:
  "spacefree cur \<Longrightarrow> w \<in> set (split_ws cur s) \<Longrightarrow> w \<noteq> [] \<and> spacefree w"
proof (induction s arbitrary: cur)
  case Nil
  then show ?case by (auto split: if_splits)
next
  case (Cons a s)
  show ?case
  proof (cases "isspace a")
    case True
    with Cons.prems have "w = cur \<and> cur \<noteq> [] \<or> w \<in> set (split_ws [] s)"
      by (auto split: if_splits)
    then show ?thesis
      using Cons.IH [of "[]"] Cons.prems(1) by auto
  next
    case False
    with Cons.prems have "w \<in> set (split_ws (cur @ [a]) s)" by simp
    then show ?thesis
      using Cons.IH [of "cur @ [a]"] spacefree_snoc [OF Cons.prems(1) False] by simp
  qed
qed

lemma str_split_tokens: "w \<in> set (str_split s) \<Longrightarrow> w \<noteq> [] \<and> spacefree w"
  using split_ws_tokens [of "[]" w s] by (simp add: str_split_def)

lemma split_ws_word: "spacefree w \<Longrightarrow> split_ws cur (w @ rest) = split_ws (cur @ w) rest"
  by (induction w arbitrary: cur) (auto simp: spacefree_def)

lemma str_split_three:
  assumes "a \<noteq> []" "b \<noteq> []" "c \<noteq> []" "spacefree a" "spacefree b" "spacefree c"
  shows "str_split (a @ [32] @ b @ [32] @ c) = [a, b, c]"
proof -
  have sp: "isspace 32" by (simp add: isspace_def)
  have "split_ws [] (a @ [32] @ b @ [32] @ c) = split_ws a ([32] @ b @ [32] @ c)"
    using split_ws_word [OF assms(4), of "[]"] by simp
  also have "\<dots> = a # split_ws [] (b @ [32] @ c)"
    using sp assms(1) by simp
  also have "split_ws [] (b @ [32] @ c) = split_ws b ([32] @ c)"
    using split_ws_word [OF assms(5), of "[]"] by simp
  also have "\<dots> = b # split_ws [] (c @ [])"
    using sp assms(2) by simp
  also have "split_ws [] (c @ []) = split_ws c []"
    using split_ws_word [OF assms(6), of "[]" "[]"] by simp
  also have "\<dots> = [c]" using assms(3) by simp
  finally show ?thesis by (simp add: str_split_def)
qed

lemma str_strip_id:
  assumes "s \<noteq> []" "\<not> isspace (hd s)" "\<not> isspace (last s)"
  shows "str_strip s = s"
proof -
  have 1: "dropWhile isspace s = s" using assms(1,2) by (cases s) auto
  have "rev s \<noteq> []" "\<not> isspace (hd (rev s))" using assms by (auto simp: hd_rev)
  then have 2: "dropWhile isspace (rev s) = rev s" by (cases "rev s") auto
  show ?thesis by (simp add: str_strip_def 1 2)
qed


lemma spacefree_append [simp]: "spacefree (a @ b) \<longleftrightarrow> spacefree a \<and> spacefree b"
  by (simp add: spacefree_def)

lemma spacefree_concat: "\<forall>w\<in>set ws. spacefree w \<Longrightarrow> spacefree (concat ws)"
  by (induction ws) auto

lemma spacefree_hd: "spacefree w \<Longrightarrow> w \<noteq> [] \<Longrightarrow> \<not> isspace (hd w)"
  by (cases w) (auto simp: spacefree_def)

lemma spacefree_last: "spacefree w \<Longrightarrow> w \<noteq> [] \<Longrightarrow> \<not> isspace (last w)"
  by (induction w) (auto simp: spacefree_def)

lemma rx_run_Cat_mem:
  "x \<in> set (rx_run (Cat a b) st) \<Longrightarrow> \<exists>st'. x \<in> set (rx_run b st')"
  by auto

lemma rx_run_Grp_mem: "x \<in> set (rx_run (Grp a) st) \<Longrightarrow> snd x \<noteq> None"
  by (cases st) auto

lemma rx_seq_group_last:
  "x \<in> set (rx_run (rx_seq (rs @ [Grp r])) st) \<Longrightarrow> snd x \<noteq> None"
proof (induction rs arbitrary: st)
  case Nil
  then have "x \<in> set (rx_run (Grp r) st)" by simp
  then show ?case by (rule rx_run_Grp_mem)
next
  case (Cons a rs)
  then obtain st' where "x \<in> set (rx_run (rx_seq (rs @ [Grp r])) st')" by auto
  then show ?case by (rule Cons.IH)
qed

lemma rx_match_mem: "rx_match p s = Some (m, g) \<Longrightarrow> \<exists>s'. (s', g) \<in> set (rx_run p (s, None))"
  by (auto simp: rx_match_def split: list.splits)

lemma rx_search_match: "rx_search p s = Some r \<Longrightarrow> \<exists>s0. rx_match p s0 = Some r"
  by (induction s) (auto split: option.splits)

lemma marker_group_present: "rx_search marker_rx text = Some (m, g) \<Longrightarrow> g \<noteq> None"
proof -
  assume "rx_search marker_rx text = Some (m, g)"
  then obtain s0 where "rx_match marker_rx s0 = Some (m, g)"
    using rx_search_match by blast
  then obtain s' where mem: "(s', g) \<in> set (rx_run marker_rx (s0, None))"
    using rx_match_mem by blast
  have eq: "marker_rx = rx_seq
     ([One (Chr 91), Rep Space 0 None, One (Chr 51665), Rep Space 0 None,
      One (Chr 54633), Rep Space 0 None, One (Chr 44148), Rep Space 0 None,
      One (Chr 47932), Rep Space 0 None, One (Chr 93), Rep Space 0 None] @
      [Grp (Rep NotNewline 1 None)])"
    by (simp add: marker_rx_def)
  from mem have "snd (s', g) \<noteq> None"
    unfolding eq by (rule rx_seq_group_last)
  then show ?thesis by simp
qed

lemma py_index_nth: "n < length xs \<Longrightarrow> py_index xs (int n) = Inr (xs ! n)"
  by (simp add: py_index_def)

lemma py_slice_take: "3 \<le> k \<Longrightarrow> k < int (length xs) \<Longrightarrow>
    py_slice xs 3 (k + 1) = take (nat k - 2) (drop 3 xs)"
  by (auto simp: py_slice_def clip_index_def Let_def min_def intro!: arg_cong2 [of _ _ _ _ take])

lemma parse_words_shape:
  assumes tok: "\<forall>w\<in>set words. w \<noteq> [] \<and> spacefree w"
  shows "(dong_end_idx words < 3 \<and> parse_words words = Inr (None, None)) \<or>
         (\<exists>r c d b. 3 \<le> dong_end_idx words \<and>
            parse_words words = Inr (Some (r @ [32] @ c @ [32] @ d), Some b) \<and>
            r \<noteq> [] \<and> c \<noteq> [] \<and> d \<noteq> [] \<and> spacefree r \<and> spacefree c \<and> spacefree d)"
proof (cases "dong_end_idx words < 3")
  case True
  then show ?thesis by (simp add: parse_words_def)
next
  case False
  define k where "k = dong_end_idx words"
  have k3: "3 \<le> k" using False by (simp add: k_def)
  have kn: "k < int (length words)" unfolding k_def by (rule dong_end_idx_less)
  then have len: "4 \<le> length words" using k3 by linarith
  define r where "r = words ! 0"
  define c where "c = words ! 1 @ words ! 2"
  define ds where "ds = take (nat k - 2) (drop 3 words)"
  define d where "d = concat ds"
  have i0: "py_index words 0 = Inr (words ! 0)"
    using len by (auto simp: py_index_def)
  have i1: "py_index words 1 = Inr (words ! 1)"
    using len by (simp add: py_index_def)
  have i2: "py_index words 2 = Inr (words ! 2)"
    using len by (simp add: py_index_def)
  have sl: "py_slice words 3 (k + 1) = ds"
    unfolding ds_def using k3 kn by (rule py_slice_take)
  have mem: "words ! 0 \<in> set words" "words ! 1 \<in> set words" "words ! 2 \<in> set words"
    using len by (auto intro: nth_mem)
  have r: "r \<noteq> []" "spacefree r" using tok mem by (auto simp: r_def)
  have c: "c \<noteq> []" "spacefree c" using tok mem by (auto simp: c_def)
  have ds_ne: "ds \<noteq> []" using k3 len by (auto simp: ds_def)
  have ds_sub: "set ds \<subseteq> set words"
    unfolding ds_def by (meson set_take_subset set_drop_subset subset_trans)
  then have dtok: "\<forall>w\<in>set ds. w \<noteq> [] \<and> spacefree w" using tok by auto
  have d1: "d \<noteq> []" using ds_ne dtok by (cases ds) (auto simp: d_def)
  have d2: "spacefree d" unfolding d_def using dtok by (intro spacefree_concat) simp
  note d = d1 d2
  let ?a = "r @ [32] @ c @ [32] @ d"
  have "hd ?a = hd r" "last ?a = last d" using r d by auto
  then have "\<not> isspace (hd ?a)" "\<not> isspace (last ?a)"
    using r d spacefree_hd spacefree_last by auto
  then have strip: "str_strip ?a = ?a" using str_strip_id [of ?a] by simp
  have "parse_words words =
      Inr (Some ?a, Some (clean_korean_text (concat (filter (\<lambda>w. rx_search suffix_rx w = None)
             (py_slice_from words (k + 2))))))"
    using False strip
    by (simp add: parse_words_def Let_def i0 i1 i2 sl k_def [symmetric] r_def c_def d_def)
  with k3 r c d show ?thesis unfolding k_def by blast
qed

lemma rx_run_Rep0_nonempty: "rx_run (Rep c 0 bound) st \<noteq> []"
  by (cases st) simp

lemma rx_match_None: "rx_match p s = None \<longleftrightarrow> rx_run p (s, None) = []"
  by (auto simp: rx_match_def split: list.splits)

lemma rx_run_Cat_nonempty:
  assumes "rx_run a st \<noteq> []" and "\<And>st'. rx_run b st' \<noteq> []"
  shows "rx_run (Cat a b) st \<noteq> []"
proof -
  from assms(1) obtain x xs where "rx_run a st = x # xs" by (cases "rx_run a st") auto
  with assms(2) [of x] show ?thesis by simp
qed

lemma rx_run_Cat_empty: "rx_run a st = [] \<Longrightarrow> rx_run (Cat a b) st = []"
  by simp

text \<open>
  \<^verbatim>\<open>re.match\<close> looks for the pattern at the start of the token and lets anything follow:
  a token matches the lot-number pattern exactly when it begins with a decimal digit.
\<close>

lemma lot_match_iff: "lot_match w \<longleftrightarrow> w \<noteq> [] \<and> isdecimal (hd w)"
proof -
  have t1: "rx_run (rx_seq [Rep Digit 0 None]) st \<noteq> []" for st
    unfolding rx_seq.simps
    by (rule rx_run_Cat_nonempty) (simp_all add: rx_run_Rep0_nonempty del: rx_run.simps(3))
  have t2: "rx_run (rx_seq [Rep (Chr 45) 0 (Some 1), Rep Digit 0 None]) st \<noteq> []" for st
    using rx_run_Cat_nonempty [OF rx_run_Rep0_nonempty t1] by simp
  have "rx_run lot_rx (w, None) \<noteq> [] \<longleftrightarrow> rx_run (Rep Digit 1 (Some 4)) (w, None) \<noteq> []"
  proof
    assume "rx_run lot_rx (w, None) \<noteq> []"
    then show "rx_run (Rep Digit 1 (Some 4)) (w, None) \<noteq> []"
      unfolding lot_rx_def rx_seq.simps using rx_run_Cat_empty by blast
  next
    assume "rx_run (Rep Digit 1 (Some 4)) (w, None) \<noteq> []"
    then have "rx_run (Cat (Rep Digit 1 (Some 4))
        (rx_seq [Rep (Chr 45) 0 (Some 1), Rep Digit 0 None])) (w, None) \<noteq> []"
      using t2 by (rule rx_run_Cat_nonempty)
    then show "rx_run lot_rx (w, None) \<noteq> []" by (simp add: lot_rx_def del: rx_run.simps)
  qed
  then have "lot_match w \<longleftrightarrow> rx_run (Rep Digit 1 (Some 4)) (w, None) \<noteq> []"
    by (simp add: lot_match_def rx_match_None)
  also have "\<dots> \<longleftrightarrow> takeWhile isdecimal w \<noteq> []"
  proof -
    have "in_cls Digit = isdecimal" by (rule ext) simp
    then show ?thesis
      by (cases "takeWhile isdecimal w") (auto simp: run_length_def Let_def)
  qed
  also have "\<dots> \<longleftrightarrow> w \<noteq> [] \<and> isdecimal (hd w)"
    by (cases w) auto
  finally show ?thesis .
qed

lemma findall_class: "findall_from (One c) 0 s = map (\<lambda>x. [x]) (filter (in_cls c) s)"
  by (induction s) (auto simp: rx_match_def)

lemma clean_korean_text_filter:
  "clean_korean_text text = filter (\<lambda>c. 44032 \<le> c \<and> c \<le> 55203) text"
proof -
  have 1: "concat (map (\<lambda>x. [x]) xs) = xs" for xs :: ustring by (induction xs) auto
  have 2: "in_cls (Between 44032 55203) = (\<lambda>c. 44032 \<le> c \<and> c \<le> 55203)"
    by (rule ext) simp
  show ?thesis by (simp add: clean_korean_text_def rx_findall_def findall_class 1 2)
qed

section \<open>The address and building parse\<close>

lemma extract_cases:
  "(rx_search marker_rx (document_text pages) = None \<and>
      extract_address_and_building_from_pdf pages = Inr (None, None)) \<or>
   (\<exists>m g. rx_search marker_rx (document_text pages) = Some (m, Some g) \<and>
      extract_address_and_building_from_pdf pages = parse_words (str_split (str_strip g)))"
proof (cases "rx_search marker_rx (document_text pages)")
  case None
  then show ?thesis by (simp add: extract_address_and_building_from_pdf_def)
next
  case (Some r)
  obtain m g where r: "r = (m, g)" by (cases r)
  with Some marker_group_present obtain t where "g = Some t" by blast
  with Some r show ?thesis by (simp add: extract_address_and_building_from_pdf_def)
qed

lemma extract_shape:
  "extract_address_and_building_from_pdf pages = Inr (None, None) \<or>
   (\<exists>r c d b. extract_address_and_building_from_pdf pages =
        Inr (Some (r @ [32] @ c @ [32] @ d), Some b) \<and>
      r \<noteq> [] \<and> c \<noteq> [] \<and> d \<noteq> [] \<and> spacefree r \<and> spacefree c \<and> spacefree d)"
proof -
  from extract_cases [of pages] show ?thesis
  proof
    assume "rx_search marker_rx (document_text pages) = None \<and>
      extract_address_and_building_from_pdf pages = Inr (None, None)"
    then show ?thesis by simp
  next
    assume "\<exists>m g. rx_search marker_rx (document_text pages) = Some (m, Some g) \<and>
      extract_address_and_building_from_pdf pages = parse_words (str_split (str_strip g))"
    then obtain g where
      eq: "extract_address_and_building_from_pdf pages = parse_words (str_split (str_strip g))"
      by blast
    have "\<forall>w\<in>set (str_split (str_strip g)). w \<noteq> [] \<and> spacefree w"
      using str_split_tokens by blast
    from parse_words_shape [OF this] show ?thesis unfolding eq by blast
  qed
qed

lemma extract_address_parts:
  "extract_address_and_building_from_pdf pages = Inr (None, None) \<or>
   (\<exists>a b r c d. extract_address_and_building_from_pdf pages = Inr (Some a, Some b) \<and>
      str_split a = [r, c, d] \<and> r \<noteq> [] \<and> c \<noteq> [] \<and> d \<noteq> [])"
proof -
  from extract_shape [of pages] show ?thesis
  proof
    assume "extract_address_and_building_from_pdf pages = Inr (None, None)"
    then show ?thesis by simp
  next
    assume "\<exists>r c d b. extract_address_and_building_from_pdf pages =
        Inr (Some (r @ [32] @ c @ [32] @ d), Some b) \<and>
      r \<noteq> [] \<and> c \<noteq> [] \<and> d \<noteq> [] \<and> spacefree r \<and> spacefree c \<and> spacefree d"
    then obtain r c d b where
      eq: "extract_address_and_building_from_pdf pages = Inr (Some (r @ [32] @ c @ [32] @ d), Some b)"
      and ne: "r \<noteq> []" "c \<noteq> []" "d \<noteq> []"
      and sf: "spacefree r" "spacefree c" "spacefree d"
      by blast
    have "str_split (r @ [32] @ c @ [32] @ d) = [r, c, d]"
      using ne sf by (rule str_split_three)
    with eq ne show ?thesis by blast
  qed
qed

text \<open>
  C1 (as stated, refuted): on a marker line that ends with the lot number the function
  returns a present address together with the empty building name.
\<close>

theorem extract_address_with_empty_building:
  "extract_address_and_building_from_pdf
     [[91, 51665, 54633, 44148, 47932, 93, 32, 44221, 44592, 46020, 32, 49688, 50896, 49884, 32, 50689, 53685, 44396, 32, 47588, 53444, 46041, 32, 49, 50, 51, 45, 52]] =
   Inr (Some [44221, 44592, 46020, 32, 49688, 50896, 49884, 50689, 53685, 44396, 32, 47588, 53444, 46041],
        Some [])"
  by code_simp

text \<open>
  C1 (amended): for every document the function returns either the pair of two absent
  values, or a present address made of exactly three non-empty whitespace-separated
  components together with a present building-name string, which may be empty; it never
  returns one absent and one present value, and it never raises.
\<close>

theorem extract_both_absent_or_both_present:
  "extract_address_and_building_from_pdf pages = Inr (None, None) \<or>
   (\<exists>a b r c d. extract_address_and_building_from_pdf pages = Inr (Some a, Some b) \<and>
      str_split a = [r, c, d] \<and> r \<noteq> [] \<and> c \<noteq> [] \<and> d \<noteq> [])"
  by (rule extract_address_parts)

text \<open>
  C5: the boundary that the scan computes is the one the specification describes (the
  token before the first token matching the lot-number pattern, else the last token that
  contains \<^verbatim>\<open>dong\<close>, else \<open>-1\<close>), and whenever the boundary of the marker line is below 3
  the function returns absent for both outputs. A token matches the pattern as
  \<^verbatim>\<open>re.match\<close> decides it (\<open>lot_match_iff\<close>).
\<close>

theorem boundary_as_specified:
  "dong_end_idx words = spec_boundary words \<and>
   (rx_search marker_rx (document_text pages) = Some (m, Some g) \<and>
      dong_end_idx (str_split (str_strip g)) < 3 \<longrightarrow>
    extract_address_and_building_from_pdf pages = Inr (None, None))"
proof
  show "dong_end_idx words = spec_boundary words"
    by (simp add: dong_end_idx_def spec_boundary_def scan_tokens_spec split: option.splits)
next
  show "rx_search marker_rx (document_text pages) = Some (m, Some g) \<and>
      dong_end_idx (str_split (str_strip g)) < 3 \<longrightarrow>
    extract_address_and_building_from_pdf pages = Inr (None, None)"
    by (simp add: extract_address_and_building_from_pdf_def parse_words_def)
qed

theorem boundary_as_specified_witness:
  "dong_end_idx (str_split [44221, 44592, 46020, 32, 49688, 50896, 49884, 32, 50689, 53685, 44396, 32, 47588, 53444, 46041, 32, 49, 50, 51, 45, 52, 32, 54620, 48731, 50724, 54588, 49828, 53588, 32, 51228, 53, 52789, 32, 51228, 53, 48, 49, 54840]) = 3 \<and>
   spec_boundary (str_split [44221, 44592, 46020, 32, 49688, 50896, 49884, 32, 50689, 53685, 44396, 32, 47588, 53444, 46041, 32, 49, 50, 51, 45, 52, 32, 54620, 48731, 50724, 54588, 49828, 53588, 32, 51228, 53, 52789, 32, 51228, 53, 48, 49, 54840]) = 3 \<and>
   rx_search marker_rx (document_text [[91, 51665, 54633, 44148, 47932, 93, 32, 49436, 50872, 53945, 48324, 49884, 32, 44053, 45224, 44396, 32, 50669, 49340, 46041, 32, 49, 50, 51, 45, 52, 32, 54620, 48731, 50724, 54588, 49828, 53588]]) =
     Some ([91, 51665, 54633, 44148, 47932, 93, 32, 49436, 50872, 53945, 48324, 49884, 32, 44053, 45224, 44396, 32, 50669, 49340, 46041, 32, 49, 50, 51, 45, 52, 32, 54620, 48731, 50724, 54588, 49828, 53588],
           Some [49436, 50872, 53945, 48324, 49884, 32, 44053, 45224, 44396, 32, 50669, 49340, 46041, 32, 49, 50, 51, 45, 52, 32, 54620, 48731, 50724, 54588, 49828, 53588]) \<and>
   dong_end_idx (str_split (str_strip [49436, 50872, 53945, 48324, 49884, 32, 44053, 45224, 44396, 32, 50669, 49340, 46041, 32, 49, 50, 51, 45, 52, 32, 54620, 48731, 50724, 54588, 49828, 53588])) = 2 \<and>
   extract_address_and_building_from_pdf [[91, 51665, 54633, 44148, 47932, 93, 32, 49436, 50872, 53945, 48324, 49884, 32, 44053, 45224, 44396, 32, 50669, 49340, 46041, 32, 49, 50, 51, 45, 52, 32, 54620, 48731, 50724, 54588, 49828, 53588]] = Inr (None, None)"
proof -
  let ?w = "str_split [44221, 44592, 46020, 32, 49688, 50896, 49884, 32, 50689, 53685, 44396, 32, 47588, 53444, 46041, 32, 49, 50, 51, 45, 52, 32, 54620, 48731, 50724, 54588, 49828, 53588, 32, 51228, 53, 52789, 32, 51228, 53, 48, 49, 54840]"
  let ?p = "[[91, 51665, 54633, 44148, 47932, 93, 32, 49436, 50872, 53945, 48324, 49884, 32, 44053, 45224, 44396, 32, 50669, 49340, 46041, 32, 49, 50, 51, 45, 52, 32, 54620, 48731, 50724, 54588, 49828, 53588]]"
  let ?g = "[49436, 50872, 53945, 48324, 49884, 32, 44053, 45224, 44396, 32, 50669, 49340, 46041, 32, 49, 50, 51, 45, 52, 32, 54620, 48731, 50724, 54588, 49828, 53588]"
  have d: "dong_end_idx ?w = 3" by code_simp
  have s: "rx_search marker_rx (document_text ?p) = Some ([91, 51665, 54633, 44148, 47932, 93, 32, 49436, 50872, 53945, 48324, 49884, 32, 44053, 45224, 44396, 32, 50669, 49340, 46041, 32, 49, 50, 51, 45, 52, 32, 54620, 48731, 50724, 54588, 49828, 53588], Some ?g)" by code_simp
  have b: "dong_end_idx (str_split (str_strip ?g)) = 2" by code_simp
  from boundary_as_specified [of ?w ?p "[91, 51665, 54633, 44148, 47932, 93, 32, 49436, 50872, 53945, 48324, 49884, 32, 44053, 45224, 44396, 32, 50669, 49340, 46041, 32, 49, 50, 51, 45, 52, 32, 54620, 48731, 50724, 54588, 49828, 53588]" ?g] d s b
  show ?thesis by simp
qed

text \<open>
  C10: an address that the function returns splits into exactly three non-empty
  components, so \<^verbatim>\<open>get_lawd_cd\<close> never takes its branch for fewer than three parts on it
  and goes on to the table lookup with these components.
\<close>

theorem parsed_address_has_three_parts:
  "extract_address_and_building_from_pdf pages = Inr (Some a, b) \<Longrightarrow>
   \<exists>r c d. str_split a = [r, c, d] \<and> r \<noteq> [] \<and> c \<noteq> [] \<and> d \<noteq> [] \<and>
     \<not> length (str_split a) < 3 \<and> (\<forall>df. get_lawd_cd a df = lookup_lawd r c d df)"
proof -
  assume ex: "extract_address_and_building_from_pdf pages = Inr (Some a, b)"
  with extract_address_parts [of pages] obtain r c d where
    sp: "str_split a = [r, c, d]" and ne: "r \<noteq> []" "c \<noteq> []" "d \<noteq> []"
    by auto
  have "get_lawd_cd a df = lookup_lawd r c d df" for df
    by (simp add: get_lawd_cd_def sp py_index_def)
  with sp ne show ?thesis by simp
qed

theorem parsed_address_has_three_parts_witness:
  "extract_address_and_building_from_pdf [[91, 51665, 54633, 44148, 47932, 93, 32, 44221, 44592, 46020, 32, 49688, 50896, 49884, 32, 50689, 53685, 44396, 32, 47588, 53444, 46041, 32, 49, 50, 51, 45, 52, 32, 54620, 48731, 50724, 54588, 49828, 53588, 32, 51228, 53, 52789, 32, 51228, 53, 48, 49, 54840]] =
     Inr (Some [44221, 44592, 46020, 32, 49688, 50896, 49884, 50689, 53685, 44396, 32, 47588, 53444, 46041], Some [54620, 48731, 50724, 54588, 49828, 53588]) \<and>
   (\<exists>r c d. str_split [44221, 44592, 46020, 32, 49688, 50896, 49884, 50689, 53685, 44396, 32, 47588, 53444, 46041] = [r, c, d] \<and> r \<noteq> [] \<and> c \<noteq> [] \<and> d \<noteq> [] \<and>
     \<not> length (str_split [44221, 44592, 46020, 32, 49688, 50896, 49884, 50689, 53685, 44396, 32, 47588, 53444, 46041]) < 3 \<and>
     (\<forall>df. get_lawd_cd [44221, 44592, 46020, 32, 49688, 50896, 49884, 50689, 53685, 44396, 32, 47588, 53444, 46041] df = lookup_lawd r c d df))"
proof -
  have e: "extract_address_and_building_from_pdf [[91, 51665, 54633, 44148, 47932, 93, 32, 44221, 44592, 46020, 32, 49688, 50896, 49884, 32, 50689, 53685, 44396, 32, 47588, 53444, 46041, 32, 49, 50, 51, 45, 52, 32, 54620, 48731, 50724, 54588, 49828, 53588, 32, 51228, 53, 52789, 32, 51228, 53, 48, 49, 54840]] =
     Inr (Some [44221, 44592, 46020, 32, 49688, 50896, 49884, 50689, 53685, 44396, 32, 47588, 53444, 46041], Some [54620, 48731, 50724, 54588, 49828, 53588])" by code_simp
  from parsed_address_has_three_parts [OF e] e show ?thesis by simp
qed

section \<open>The risk level\<close>

text \<open>
  C7: the level is a step function of the score with the bands [80, inf), [60, 80),
  [40, 60), [20, 40) and (-inf, 20); the five labels are distinct, so every score has
  exactly one band.
\<close>

theorem risk_level_bands:
  "(fst (interpret_risk_score s) = VERY_HIGH \<longleftrightarrow> 80 \<le> s) \<and>
   (fst (interpret_risk_score s) = HIGH \<longleftrightarrow> 60 \<le> s \<and> s < 80) \<and>
   (fst (interpret_risk_score s) = MEDIUM \<longleftrightarrow> 40 \<le> s \<and> s < 60) \<and>
   (fst (interpret_risk_score s) = LOW \<longleftrightarrow> 20 \<le> s \<and> s < 40) \<and>
   (fst (interpret_risk_score s) = VERY_LOW \<longleftrightarrow> s < 20)"
  by (auto simp: interpret_risk_score_def VERY_HIGH_def HIGH_def MEDIUM_def LOW_def
      VERY_LOW_def)

section \<open>The feature record\<close>

lemma starts_with_iff: "starts_with kw s \<longleftrightarrow> (\<exists>r. s = kw @ r)"
  by (induction kw s rule: starts_with.induct) auto

lemma str_in_iff: "str_in kw t \<longleftrightarrow> (\<exists>p r. t = p @ kw @ r)"
proof (induction t)
  case Nil
  then show ?case by auto
next
  case (Cons c cs)
  show ?case
  proof
    assume "str_in kw (c # cs)"
    then consider "starts_with kw (c # cs)" | "str_in kw cs" by auto
    then show "\<exists>p r. c # cs = p @ kw @ r"
    proof cases
      case 1
      then obtain r where "c # cs = kw @ r" using starts_with_iff by blast
      then have "c # cs = [] @ kw @ r" by simp
      then show ?thesis by blast
    next
      case 2
      then obtain p r where "cs = p @ kw @ r" using Cons.IH by blast
      then have "c # cs = (c # p) @ kw @ r" by simp
      then show ?thesis by blast
    qed
  next
    assume "\<exists>p r. c # cs = p @ kw @ r"
    then obtain p r where eq: "c # cs = p @ kw @ r" by blast
    show "str_in kw (c # cs)"
    proof (cases p)
      case Nil
      with eq have "starts_with kw (c # cs)" using starts_with_iff by auto
      then show ?thesis by simp
    next
      case (Cons a p')
      with eq have "cs = p' @ kw @ r" by simp
      then have "str_in kw cs" using Cons.IH by blast
      then show ?thesis by simp
    qed
  qed
qed

lemma str_in_tail: "str_in (k # ks) t \<Longrightarrow> str_in ks t"
proof -
  assume "str_in (k # ks) t"
  then obtain p r where "t = p @ (k # ks) @ r" using str_in_iff by blast
  then have "t = (p @ [k]) @ ks @ r" by simp
  then show ?thesis using str_in_iff by blast
qed

text \<open>
  C9: in every feature record the function returns, the provisional-seizure indicator
  is at most the seizure indicator: the seizure keyword is the provisional-seizure
  keyword without its first syllable, so a text that contains the one contains the other.
\<close>

theorem provisional_seizure_implies_seizure:
  "parse_ocr_text_to_features text ratio = Inr f \<Longrightarrow>
   f_provisional_seizure f \<le> f_seizure f \<and>
   (f_provisional_seizure f = 1 \<longrightarrow> f_seizure f = 1)"
proof -
  assume r: "parse_ocr_text_to_features text ratio = Inr f"
  define t where "t = filter (\<lambda>c. c \<noteq> 32) text"
  from r have p: "f_provisional_seizure f = contains t GAAPRYU"
    and s: "f_seizure f = contains t APRYU"
    by (auto simp: parse_ocr_text_to_features_def Let_def t_def split: sum.splits)
  have g: "GAAPRYU = 44032 # APRYU" by (simp add: GAAPRYU_def APRYU_def)
  have "str_in GAAPRYU t \<Longrightarrow> str_in APRYU t"
    unfolding g by (rule str_in_tail)
  then show ?thesis unfolding p s by (auto simp: contains_def)
qed

theorem provisional_seizure_implies_seizure_witness:
  "parse_ocr_text_to_features [44032, 50517, 47448, 32, 44208, 51221] (7 / 10 :: rat) =
     Inr \<lparr>f_jeonse_ratio = 7 / 10, f_trust = 0, f_mortgage = 0, f_provisional_seizure = 1,
          f_seizure = 1, f_ownership_transfer = 0, f_lease_registration = 0\<rparr> \<and>
   (1::nat) \<le> 1"
proof -
  let ?f = "\<lparr>f_jeonse_ratio = 7 / 10 :: rat, f_trust = 0, f_mortgage = 0,
      f_provisional_seizure = 1, f_seizure = 1, f_ownership_transfer = 0,
      f_lease_registration = 0\<rparr>"
  have e: "parse_ocr_text_to_features [44032, 50517, 47448, 32, 44208, 51221] (7 / 10 :: rat) = Inr ?f"
    by code_simp
  from provisional_seizure_implies_seizure [OF e] e show ?thesis by simp
qed

lemma no_lien_gives_zero: "rx_findall lien_rx text = [] \<Longrightarrow> normalize_mortgage text = Inr 0"
  by (simp add: normalize_mortgage_def)

text \<open>
  C2 (the code at the failing input): the lien pattern takes one comma only, so of
  \<^verbatim>\<open>5,000,000,000\<close> and \<^verbatim>\<open>3,000,000,000\<close> it captures \<^verbatim>\<open>5,000\<close> and \<^verbatim>\<open>3,000\<close>, and the
  feature is 5000 / 100000000, not 50.
\<close>

theorem lien_amount_cut_at_second_comma:
  "rx_findall lien_rx (filter (\<lambda>c. c \<noteq> 32) [44540, 51200, 45817, 44428, 49444, 51221, 44552, 32, 53, 44, 48, 48, 48, 44, 48, 48, 48, 44, 48, 48, 48, 10, 44540, 51200, 45817, 44428, 49444, 51221, 44552, 32, 51, 44, 48, 48, 48, 44, 48, 48, 48, 44, 48, 48, 48]) = [[53, 44, 48, 48, 48], [51, 44, 48, 48, 48]] \<and>
   parse_ocr_text_to_features [44540, 51200, 45817, 44428, 49444, 51221, 44552, 32, 53, 44, 48, 48, 48, 44, 48, 48, 48, 44, 48, 48, 48, 10, 44540, 51200, 45817, 44428, 49444, 51221, 44552, 32, 51, 44, 48, 48, 48, 44, 48, 48, 48, 44, 48, 48, 48] (7 / 10 :: rat) =
     Inr \<lparr>f_jeonse_ratio = 7 / 10, f_trust = 0, f_mortgage = 5000 / 100000000,
          f_provisional_seizure = 0, f_seizure = 0, f_ownership_transfer = 0,
          f_lease_registration = 0\<rparr>"
  by code_simp

section \<open>The administrative code lookup\<close>

lemma py_slice_prefix: "py_slice xs 0 5 = take 5 xs"
  by (simp add: py_slice_def clip_index_def min_def)

lemma find_None_filter: "find P xs = None \<Longrightarrow> filter P xs = []"
  by (induction xs) (auto split: if_splits)

lemma find_Some_filter: "find P xs = Some x \<Longrightarrow> \<exists>rest. filter P xs = x # rest"
  by (induction xs) (auto split: if_splits)

lemma lookup_lawd_find:
  "lookup_lawd p0 p1 p2 df =
     (case find (\<lambda>row. sido row = Some p0 \<and> sigungu row = Some p1 \<and>
               eupmyeondong row = Some p2) df of
        None \<Rightarrow> Inr None
      | Some row \<Rightarrow>
          (case lawd_code row of None \<Rightarrow> Inl TypeError | Some code \<Rightarrow> Inr (Some (take 5 code))))"
proof -
  let ?P = "\<lambda>row. sido row = Some p0 \<and> sigungu row = Some p1 \<and> eupmyeondong row = Some p2"
  show ?thesis
  proof (cases "find ?P df")
    case None
    then have "filter ?P df = []" by (rule find_None_filter)
    with None show ?thesis by (simp add: lookup_lawd_def)
  next
    case (Some row)
    then obtain rest where f: "filter ?P df = row # rest"
      using find_Some_filter by fastforce
    show ?thesis
      unfolding lookup_lawd_def Let_def f using Some
      by (simp add: py_index_def py_slice_prefix split: option.splits)
  qed
qed

text \<open>
  C6: an address of fewer than three components gives absent; otherwise the first three
  components are compared for equality with the three name cells of each row, no row equal
  in all three gives absent, and the first such row gives the first five characters of
  its code.
\<close>

theorem get_lawd_cd_exact_match:
  "(length (str_split address) < 3 \<longrightarrow> get_lawd_cd address df = Inr None) \<and>
   (\<forall>p0 p1 p2 rest. str_split address = p0 # p1 # p2 # rest \<longrightarrow>
      (case find (\<lambda>row. sido row = Some p0 \<and> sigungu row = Some p1 \<and>
                 eupmyeondong row = Some p2) df of
         None \<Rightarrow> get_lawd_cd address df = Inr None
       | Some row \<Rightarrow>
           (\<forall>code. lawd_code row = Some code \<longrightarrow>
              get_lawd_cd address df = Inr (Some (take 5 code)))))"
proof (intro conjI allI impI)
  assume "length (str_split address) < 3"
  then show "get_lawd_cd address df = Inr None" by (simp add: get_lawd_cd_def)
next
  fix p0 p1 p2 rest
  assume sp: "str_split address = p0 # p1 # p2 # rest"
  then have "get_lawd_cd address df = lookup_lawd p0 p1 p2 df"
    by (simp add: get_lawd_cd_def py_index_def)
  then show "case find (\<lambda>row. sido row = Some p0 \<and> sigungu row = Some p1 \<and>
                 eupmyeondong row = Some p2) df of
         None \<Rightarrow> get_lawd_cd address df = Inr None
       | Some row \<Rightarrow>
           (\<forall>code. lawd_code row = Some code \<longrightarrow>
              get_lawd_cd address df = Inr (Some (take 5 code)))"
    by (simp add: lookup_lawd_find split: option.splits)
qed

theorem get_lawd_cd_exact_match_witness:
  "length (str_split [49436, 50872, 53945, 48324, 49884, 32, 44053, 45224, 44396]) < 3 \<and>
   get_lawd_cd [49436, 50872, 53945, 48324, 49884, 32, 44053, 45224, 44396]
     [\<lparr>sido = Some [49436, 50872, 53945, 48324, 49884], sigungu = None, eupmyeondong = None, lawd_code = Some [49, 49, 48, 48, 48, 48, 48, 48, 48, 48]\<rparr>,
      \<lparr>sido = Some [49436, 50872, 53945, 48324, 49884], sigungu = Some [44053, 45224, 44396], eupmyeondong = Some [49340, 49457, 46041], lawd_code = Some [49, 49, 54, 56, 48, 49, 48, 53, 48, 48]\<rparr>,
      \<lparr>sido = Some [49436, 50872, 53945, 48324, 49884], sigungu = Some [44053, 45224, 44396], eupmyeondong = Some [50669, 49340, 46041], lawd_code = Some [49, 49, 54, 56, 48, 49, 48, 49, 48, 48]\<rparr>] = Inr None \<and>
   str_split [49436, 50872, 53945, 48324, 49884, 32, 44053, 45224, 44396, 32, 50669, 49340, 46041] =
     [[49436, 50872, 53945, 48324, 49884], [44053, 45224, 44396], [50669, 49340, 46041]] \<and>
   get_lawd_cd [49436, 50872, 53945, 48324, 49884, 32, 44053, 45224, 44396, 32, 50669, 49340, 46041]
     [\<lparr>sido = Some [49436, 50872, 53945, 48324, 49884], sigungu = None, eupmyeondong = None, lawd_code = Some [49, 49, 48, 48, 48, 48, 48, 48, 48, 48]\<rparr>,
      \<lparr>sido = Some [49436, 50872, 53945, 48324, 49884], sigungu = Some [44053, 45224, 44396], eupmyeondong = Some [49340, 49457, 46041], lawd_code = Some [49, 49, 54, 56, 48, 49, 48, 53, 48, 48]\<rparr>,
      \<lparr>sido = Some [49436, 50872, 53945, 48324, 49884], sigungu = Some [44053, 45224, 44396], eupmyeondong = Some [50669, 49340, 46041], lawd_code = Some [49, 49, 54, 56, 48, 49, 48, 49, 48, 48]\<rparr>] = Inr (Some [49, 49, 54, 56, 48])"
proof -
  let ?df = "[\<lparr>sido = Some [49436, 50872, 53945, 48324, 49884], sigungu = None, eupmyeondong = None, lawd_code = Some [49, 49, 48, 48, 48, 48, 48, 48, 48, 48]\<rparr>,
      \<lparr>sido = Some [49436, 50872, 53945, 48324, 49884], sigungu = Some [44053, 45224, 44396], eupmyeondong = Some [49340, 49457, 46041], lawd_code = Some [49, 49, 54, 56, 48, 49, 48, 53, 48, 48]\<rparr>,
      \<lparr>sido = Some [49436, 50872, 53945, 48324, 49884], sigungu = Some [44053, 45224, 44396], eupmyeondong = Some [50669, 49340, 46041], lawd_code = Some [49, 49, 54, 56, 48, 49, 48, 49, 48, 48]\<rparr>]"
  let ?short = "[49436, 50872, 53945, 48324, 49884, 32, 44053, 45224, 44396]"
  let ?a = "[49436, 50872, 53945, 48324, 49884, 32, 44053, 45224, 44396, 32, 50669, 49340, 46041]"
  let ?row = "\<lparr>sido = Some [49436, 50872, 53945, 48324, 49884], sigungu = Some [44053, 45224, 44396], eupmyeondong = Some [50669, 49340, 46041], lawd_code = Some [49, 49, 54, 56, 48, 49, 48, 49, 48, 48]\<rparr>"
  have s: "length (str_split ?short) < 3" by code_simp
  have p: "str_split ?a = [49436, 50872, 53945, 48324, 49884] # [44053, 45224, 44396] # [50669, 49340, 46041] # []"
    by code_simp
  have f: "find (\<lambda>row. sido row = Some [49436, 50872, 53945, 48324, 49884] \<and> sigungu row = Some [44053, 45224, 44396] \<and>
                 eupmyeondong row = Some [50669, 49340, 46041]) ?df = Some ?row"
    by simp
  have t: "take 5 [49, 49, 54, 56, 48, 49, 48, 49, 48, 48] = [49, 49, 54, 56, 48]" by simp
  from get_lawd_cd_exact_match [of ?short ?df] s
  have 1: "get_lawd_cd ?short ?df = Inr None" by blast
  from get_lawd_cd_exact_match [of ?a ?df] p
  have "case find (\<lambda>row. sido row = Some [49436, 50872, 53945, 48324, 49884] \<and> sigungu row = Some [44053, 45224, 44396] \<and>
                 eupmyeondong row = Some [50669, 49340, 46041]) ?df of
         None \<Rightarrow> get_lawd_cd ?a ?df = Inr None
       | Some row \<Rightarrow>
           (\<forall>code. lawd_code row = Some code \<longrightarrow>
              get_lawd_cd ?a ?df = Inr (Some (take 5 code)))"
    by blast
  then have 2: "get_lawd_cd ?a ?df = Inr (Some (take 5 [49, 49, 54, 56, 48, 49, 48, 49, 48, 48]))"
    unfolding f by simp
  from s 1 p 2 t show ?thesis by simp
qed

section \<open>The trade lookup\<close>

lemma months_loop_no_items: "months_loop E result (map (\<lambda>month. Inr []) ms) = Inr result"
  by (induction ms) auto

lemma no_candidate_gives_None:
  "result \<noteq> [] \<Longrightarrow> literal_pattern building_name \<Longrightarrow>
   df_filtered E result building_name area_q = [] \<Longrightarrow>
   select_latest E result building_name area_q = Inr None"
  by (simp add: select_latest_def)

text \<open>
  C3 (the code at the failing input): when no trade record is accumulated at all, the
  frame has no columns and the function raises KeyError where the claim says it returns
  \<^verbatim>\<open>None\<close>.
\<close>

theorem no_records_raise_KeyError:
  "get_latest_officetel_trade E (\<lambda>month. Inr []) building_name area_q = Inl KeyError"
  by (simp add: get_latest_officetel_trade_def months_loop_no_items select_latest_def)

lemma accumulate_append:
  "accumulate E result items =
     result @ concat (map (\<lambda>it. case item_to_trade E it of Inl _ \<Rightarrow> [] | Inr d \<Rightarrow> [d]) items)"
  by (induction items arbitrary: result) (auto split: sum.splits)

lemma accumulate_skip:
  "item_to_trade E bad = Inl e \<Longrightarrow>
   accumulate E result (xs @ bad # ys) = accumulate E result (xs @ ys)"
  by (simp add: accumulate_append [of E result])

lemma months_loop_skip:
  assumes "item_to_trade E bad = Inl e" and "fetch m = Inr (xs @ bad # ys)"
  shows "months_loop E result (map fetch ms) =
         months_loop E result (map (fetch(m := Inr (xs @ ys))) ms)"
proof (induction ms arbitrary: result)
  case Nil
  then show ?case by simp
next
  case (Cons a ms)
  show ?case
  proof (cases "a = m")
    case True
    then show ?thesis
      using assms Cons.IH accumulate_skip [OF assms(1), of result xs ys] by simp
  next
    case False
    then show ?thesis using Cons.IH by (simp split: sum.splits)
  qed
qed

text \<open>
  C8: the loop over the items of a response appends exactly the records that can be
  built and passes over the others, and a record that cannot be built changes nothing
  else: the whole query returns what it returns without that record.
\<close>

theorem malformed_record_is_skipped:
  "accumulate E result items =
     result @ concat (map (\<lambda>it. case item_to_trade E it of Inl _ \<Rightarrow> [] | Inr d \<Rightarrow> [d]) items) \<and>
   (item_to_trade E bad = Inl e \<and> fetch m = Inr (xs @ bad # ys) \<longrightarrow>
      get_latest_officetel_trade E fetch building_name area_q =
      get_latest_officetel_trade E (fetch(m := Inr (xs @ ys))) building_name area_q)"
proof (intro conjI impI)
  show "accumulate E result items =
     result @ concat (map (\<lambda>it. case item_to_trade E it of Inl _ \<Rightarrow> [] | Inr d \<Rightarrow> [d]) items)"
    by (rule accumulate_append)
next
  assume "item_to_trade E bad = Inl e \<and> fetch m = Inr (xs @ bad # ys)"
  then have b: "item_to_trade E bad = Inl e" and f: "fetch m = Inr (xs @ bad # ys)"
    by simp_all
  have "months_loop E [] (map fetch [1 ..< 13]) =
             months_loop E [] (map (fetch(m := Inr (xs @ ys))) [1 ..< 13])"
    using b f by (rule months_loop_skip)
  then show "get_latest_officetel_trade E fetch building_name area_q =
      get_latest_officetel_trade E (fetch(m := Inr (xs @ ys))) building_name area_q"
    unfolding get_latest_officetel_trade_def by (rule arg_cong)
qed

theorem malformed_record_is_skipped_witness:
  "item_to_trade sample_env
      \<lparr>offiNm = None, excluUseAr = Some [56, 48], dealYear = Some [50, 48, 50, 52],
        dealMonth = Some [48, 51], dealDay = Some [48, 49], dealAmount = Some [50, 49, 44, 48, 48, 48]\<rparr> = Inl AttributeError \<and>
   accumulate sample_env []
     [\<lparr>offiNm = Some [54620, 48731, 50724, 54588, 49828, 53588], excluUseAr = Some [56, 52], dealYear = Some [50, 48, 50, 52],
        dealMonth = Some [48, 51], dealDay = Some [49, 53], dealAmount = Some [50, 53, 44, 48, 48, 48]\<rparr>,
      \<lparr>offiNm = None, excluUseAr = Some [56, 48], dealYear = Some [50, 48, 50, 52],
        dealMonth = Some [48, 51], dealDay = Some [48, 49], dealAmount = Some [50, 49, 44, 48, 48, 48]\<rparr>,
      \<lparr>offiNm = Some [54392, 47480, 50724, 54588, 49828, 53588], excluUseAr = Some [56, 48], dealYear = Some [50, 48, 50, 52],
        dealMonth = Some [48, 55], dealDay = Some [50, 48], dealAmount = Some [49, 57, 44, 48, 48, 48]\<rparr>] =
     [\<lparr>danji = [54620, 48731, 50724, 54588, 49828, 53588], area = 84,
        contract = [50, 48, 50, 52, 45, 48, 51, 45, 49, 53], amount = [50, 53, 44, 48, 48, 48]\<rparr>,
      \<lparr>danji = [54392, 47480, 50724, 54588, 49828, 53588], area = 80,
        contract = [50, 48, 50, 52, 45, 48, 55, 45, 50, 48], amount = [49, 57, 44, 48, 48, 48]\<rparr>] \<and>
   get_latest_officetel_trade sample_env
     (\<lambda>month. if month = 3 then Inr ([\<lparr>offiNm = Some [54620, 48731, 50724, 54588, 49828, 53588], excluUseAr = Some [56, 52], dealYear = Some [50, 48, 50, 52],
        dealMonth = Some [48, 51], dealDay = Some [49, 53], dealAmount = Some [50, 53, 44, 48, 48, 48]\<rparr>] @
        \<lparr>offiNm = None, excluUseAr = Some [56, 48], dealYear = Some [50, 48, 50, 52],
        dealMonth = Some [48, 51], dealDay = Some [48, 49], dealAmount = Some [50, 49, 44, 48, 48, 48]\<rparr> # [\<lparr>offiNm = Some [54392, 47480, 50724, 54588, 49828, 53588], excluUseAr = Some [56, 48], dealYear = Some [50, 48, 50, 52],
        dealMonth = Some [48, 55], dealDay = Some [50, 48], dealAmount = Some [49, 57, 44, 48, 48, 48]\<rparr>]) else Inr [])
     [54620, 48731, 50724, 54588, 49828, 53588] 80 =
   get_latest_officetel_trade sample_env
     ((\<lambda>month. if month = 3 then Inr ([\<lparr>offiNm = Some [54620, 48731, 50724, 54588, 49828, 53588], excluUseAr = Some [56, 52], dealYear = Some [50, 48, 50, 52],
        dealMonth = Some [48, 51], dealDay = Some [49, 53], dealAmount = Some [50, 53, 44, 48, 48, 48]\<rparr>] @
        \<lparr>offiNm = None, excluUseAr = Some [56, 48], dealYear = Some [50, 48, 50, 52],
        dealMonth = Some [48, 51], dealDay = Some [48, 49], dealAmount = Some [50, 49, 44, 48, 48, 48]\<rparr> # [\<lparr>offiNm = Some [54392, 47480, 50724, 54588, 49828, 53588], excluUseAr = Some [56, 48], dealYear = Some [50, 48, 50, 52],
        dealMonth = Some [48, 55], dealDay = Some [50, 48], dealAmount = Some [49, 57, 44, 48, 48, 48]\<rparr>]) else Inr [])
      (3 := Inr ([\<lparr>offiNm = Some [54620, 48731, 50724, 54588, 49828, 53588], excluUseAr = Some [56, 52], dealYear = Some [50, 48, 50, 52],
        dealMonth = Some [48, 51], dealDay = Some [49, 53], dealAmount = Some [50, 53, 44, 48, 48, 48]\<rparr>] @ [\<lparr>offiNm = Some [54392, 47480, 50724, 54588, 49828, 53588], excluUseAr = Some [56, 48], dealYear = Some [50, 48, 50, 52],
        dealMonth = Some [48, 55], dealDay = Some [50, 48], dealAmount = Some [49, 57, 44, 48, 48, 48]\<rparr>])))
     [54620, 48731, 50724, 54588, 49828, 53588] 80 \<and>
   get_latest_officetel_trade sample_env
     (\<lambda>month. if month = 3 then Inr ([\<lparr>offiNm = Some [54620, 48731, 50724, 54588, 49828, 53588], excluUseAr = Some [56, 52], dealYear = Some [50, 48, 50, 52],
        dealMonth = Some [48, 51], dealDay = Some [49, 53], dealAmount = Some [50, 53, 44, 48, 48, 48]\<rparr>] @
        \<lparr>offiNm = None, excluUseAr = Some [56, 48], dealYear = Some [50, 48, 50, 52],
        dealMonth = Some [48, 51], dealDay = Some [48, 49], dealAmount = Some [50, 49, 44, 48, 48, 48]\<rparr> # [\<lparr>offiNm = Some [54392, 47480, 50724, 54588, 49828, 53588], excluUseAr = Some [56, 48], dealYear = Some [50, 48, 50, 52],
        dealMonth = Some [48, 55], dealDay = Some [50, 48], dealAmount = Some [49, 57, 44, 48, 48, 48]\<rparr>]) else Inr [])
     [54620, 48731, 50724, 54588, 49828, 53588] 80 =
   Inr (Some \<lparr>c_danji = [54620, 48731, 50724, 54588, 49828, 53588], c_area = 84,
        c_date = 20240315, c_amount = [50, 53, 44, 48, 48, 48], c_diff = 4\<rparr>)"
proof -
  let ?bad = "\<lparr>offiNm = None, excluUseAr = Some [56, 48], dealYear = Some [50, 48, 50, 52],
        dealMonth = Some [48, 51], dealDay = Some [48, 49], dealAmount = Some [50, 49, 44, 48, 48, 48]\<rparr>"
  let ?i1 = "\<lparr>offiNm = Some [54620, 48731, 50724, 54588, 49828, 53588], excluUseAr = Some [56, 52], dealYear = Some [50, 48, 50, 52],
        dealMonth = Some [48, 51], dealDay = Some [49, 53], dealAmount = Some [50, 53, 44, 48, 48, 48]\<rparr>"
  let ?i3 = "\<lparr>offiNm = Some [54392, 47480, 50724, 54588, 49828, 53588], excluUseAr = Some [56, 48], dealYear = Some [50, 48, 50, 52],
        dealMonth = Some [48, 55], dealDay = Some [50, 48], dealAmount = Some [49, 57, 44, 48, 48, 48]\<rparr>"
  let ?fetch = "\<lambda>month::nat. if month = 3 then Inr ([?i1] @ ?bad # [?i3]) else Inr []"
  have b: "item_to_trade sample_env ?bad = Inl AttributeError" by code_simp
  have f: "?fetch 3 = Inr ([?i1] @ ?bad # [?i3])" by simp
  have a: "accumulate sample_env [] [?i1, ?bad, ?i3] =
     [\<lparr>danji = [54620, 48731, 50724, 54588, 49828, 53588], area = 84,
        contract = [50, 48, 50, 52, 45, 48, 51, 45, 49, 53], amount = [50, 53, 44, 48, 48, 48]\<rparr>,
      \<lparr>danji = [54392, 47480, 50724, 54588, 49828, 53588], area = 80,
        contract = [50, 48, 50, 52, 45, 48, 55, 45, 50, 48], amount = [49, 57, 44, 48, 48, 48]\<rparr>]" by code_simp
  have v: "get_latest_officetel_trade sample_env ?fetch [54620, 48731, 50724, 54588, 49828, 53588] 80 =
     Inr (Some \<lparr>c_danji = [54620, 48731, 50724, 54588, 49828, 53588], c_area = 84,
        c_date = 20240315, c_amount = [50, 53, 44, 48, 48, 48], c_diff = 4\<rparr>)" by code_simp
  from malformed_record_is_skipped
    [of sample_env "[]" "[?i1, ?bad, ?i3]" ?bad AttributeError ?fetch 3 "[?i1]" "[?i3]" "[54620, 48731, 50724, 54588, 49828, 53588]" 80]
    b f
  have "get_latest_officetel_trade sample_env ?fetch [54620, 48731, 50724, 54588, 49828, 53588] 80 =
        get_latest_officetel_trade sample_env (?fetch(3 := Inr ([?i1] @ [?i3]))) [54620, 48731, 50724, 54588, 49828, 53588] 80"
    by blast
  with b a v show ?thesis by simp
qed

lemma set_insert_row: "set (insert_row x ys) = insert x (set ys)"
  by (induction ys) auto

lemma set_sort_values: "set (sort_values rows) = set rows"
  by (induction rows) (auto simp: sort_values_def set_insert_row)

lemma sorts_before_refl: "sorts_before a a"
  by (simp add: sorts_before_def)

lemma sorts_before_total: "\<not> sorts_before x y \<Longrightarrow> sorts_before y x"
  by (auto simp: sorts_before_def)

lemma sorts_before_trans: "sorts_before a b \<Longrightarrow> sorts_before b c \<Longrightarrow> sorts_before a c"
  by (auto simp: sorts_before_def)

lemma sorted_insert_row:
  "sorted_wrt sorts_before ys \<Longrightarrow> sorted_wrt sorts_before (insert_row x ys)"
proof (induction ys)
  case Nil
  then show ?case by simp
next
  case (Cons y ys)
  show ?case
  proof (cases "sorts_before x y")
    case True
    then have "\<forall>z\<in>set ys. sorts_before x z"
      using Cons.prems sorts_before_trans by auto
    with True Cons.prems show ?thesis by simp
  next
    case False
    then have "sorts_before y x" by (rule sorts_before_total)
    with False Cons show ?thesis by (auto simp: set_insert_row)
  qed
qed

lemma sorted_sort_values: "sorted_wrt sorts_before (sort_values rows)"
  by (induction rows) (auto simp: sort_values_def intro: sorted_insert_row)

lemma sort_values_head:
  assumes "sort_values rows = h # t" and "c \<in> set rows"
  shows "sorts_before h c"
proof -
  have "sorted_wrt sorts_before (h # t)" using sorted_sort_values [of rows] assms(1) by simp
  moreover have "c \<in> set (h # t)" using set_sort_values [of rows] assms by simp
  ultimately show ?thesis using sorts_before_refl by auto
qed

lemma set_df_filtered:
  "set (df_filtered E result building_name area_q) =
   spec_candidates E result building_name area_q"
proof -
  let ?named = "filter (\<lambda>d. str_in building_name (danji d)) result"
  let ?col = "map contract ?named"
  have "x \<in> set (df_filtered E result building_name area_q) \<longleftrightarrow>
        x \<in> spec_candidates E result building_name area_q" for x
  proof
    assume "x \<in> set (df_filtered E result building_name area_q)"
    then obtain d where d: "d \<in> set ?named"
      and x: "x \<in> set (case to_datetime E ?col (contract d) of None \<Rightarrow> []
                 | Some t \<Rightarrow> [with_columns d (abs_diff E (area d) area_q) t])"
      by (auto simp: df_filtered_def Let_def)
    from x obtain t where "to_datetime E ?col (contract d) = Some t"
      and "x = with_columns d (abs_diff E (area d) area_q) t"
      by (cases "to_datetime E ?col (contract d)") auto
    with d show "x \<in> spec_candidates E result building_name area_q"
      unfolding spec_candidates_def by auto
  next
    assume "x \<in> spec_candidates E result building_name area_q"
    then obtain d t where "x = with_columns d (abs_diff E (area d) area_q) t"
      and "d \<in> set ?named" and "to_datetime E ?col (contract d) = Some t"
      unfolding spec_candidates_def by auto
    then show "x \<in> set (df_filtered E result building_name area_q)"
      by (force simp: df_filtered_def Let_def)
  qed
  then show ?thesis by blast
qed

text \<open>
  C4: when the building name is a literal pattern, the twelve requests succeed and some
  accumulated record contains the building name and has a contract date that parses,
  the function returns one of these candidates, its area difference is the least among
  them, and every candidate with the same area difference has a contract date that is
  not later than its date.
\<close>

theorem best_match_is_closest_then_latest:
  assumes "literal_pattern building_name"
    and "months_loop E [] (map fetch [1 ..< 13]) = Inr result"
    and "spec_candidates E result building_name area_q \<noteq> {}"
  shows "\<exists>latest. get_latest_officetel_trade E fetch building_name area_q = Inr (Some latest) \<and>
           latest \<in> spec_candidates E result building_name area_q \<and>
           (\<forall>c\<in>spec_candidates E result building_name area_q.
              c_diff latest \<le> c_diff c \<and> (c_diff c = c_diff latest \<longrightarrow> c_date c \<le> c_date latest))"
proof -
  define rows where "rows = df_filtered E result building_name area_q"
  have rows: "set rows = spec_candidates E result building_name area_q"
    unfolding rows_def by (rule set_df_filtered)
  with assms(3) have ne: "rows \<noteq> []" by auto
  have res: "result \<noteq> []"
    using assms(3) by (auto simp: spec_candidates_def)
  from ne have "sort_values rows \<noteq> []"
    using set_sort_values [of rows] by (metis set_empty)
  then obtain h t where ht: "sort_values rows = h # t" by (cases "sort_values rows") auto
  have "select_latest E result building_name area_q = Inr (Some h)"
    using assms(1) res ne ht
    by (simp add: select_latest_def rows_def [symmetric])
  then have sel: "get_latest_officetel_trade E fetch building_name area_q = Inr (Some h)"
    unfolding get_latest_officetel_trade_def assms(2) by simp
  have mem: "h \<in> set rows" using set_sort_values [of rows] ht by auto
  have least: "c_diff h \<le> c_diff c \<and> (c_diff c = c_diff h \<longrightarrow> c_date c \<le> c_date h)"
    if "c \<in> set rows" for c
    using sort_values_head [OF ht that] by (auto simp: sorts_before_def)
  from sel mem least show ?thesis unfolding rows by blast
qed

theorem best_match_is_closest_then_latest_witness:
  "literal_pattern [54620, 48731, 50724, 54588, 49828, 53588] \<and>
   months_loop sample_env []
     (map (\<lambda>month. if month = 3 then Inr [\<lparr>offiNm = Some [54620, 48731, 50724, 54588, 49828, 53588], excluUseAr = Some [56, 52], dealYear = Some [50, 48, 50, 52],
        dealMonth = Some [48, 51], dealDay = Some [49, 53], dealAmount = Some [50, 53, 44, 48, 48, 48]\<rparr>,
        \<lparr>offiNm = None, excluUseAr = Some [56, 48], dealYear = Some [50, 48, 50, 52],
        dealMonth = Some [48, 51], dealDay = Some [48, 49], dealAmount = Some [50, 49, 44, 48, 48, 48]\<rparr>]
      else if month = 7 then Inr [\<lparr>offiNm = Some [54620, 48731, 50724, 54588, 49828, 53588, 32, 50, 52264], excluUseAr = Some [55, 54], dealYear = Some [50, 48, 50, 52],
        dealMonth = Some [48, 55], dealDay = Some [48, 50], dealAmount = Some [50, 55, 44, 48, 48, 48]\<rparr>,
        \<lparr>offiNm = Some [54392, 47480, 50724, 54588, 49828, 53588], excluUseAr = Some [56, 48], dealYear = Some [50, 48, 50, 52],
        dealMonth = Some [48, 55], dealDay = Some [50, 48], dealAmount = Some [49, 57, 44, 48, 48, 48]\<rparr>] else Inr []) [1 ..< 13]) =
     Inr [\<lparr>danji = [54620, 48731, 50724, 54588, 49828, 53588], area = 84,
        contract = [50, 48, 50, 52, 45, 48, 51, 45, 49, 53], amount = [50, 53, 44, 48, 48, 48]\<rparr>,
      \<lparr>danji = [54620, 48731, 50724, 54588, 49828, 53588, 32, 50, 52264], area = 76,
        contract = [50, 48, 50, 52, 45, 48, 55, 45, 48, 50], amount = [50, 55, 44, 48, 48, 48]\<rparr>,
      \<lparr>danji = [54392, 47480, 50724, 54588, 49828, 53588], area = 80,
        contract = [50, 48, 50, 52, 45, 48, 55, 45, 50, 48], amount = [49, 57, 44, 48, 48, 48]\<rparr>] \<and>
   df_filtered sample_env
     [\<lparr>danji = [54620, 48731, 50724, 54588, 49828, 53588], area = 84,
        contract = [50, 48, 50, 52, 45, 48, 51, 45, 49, 53], amount = [50, 53, 44, 48, 48, 48]\<rparr>,
      \<lparr>danji = [54620, 48731, 50724, 54588, 49828, 53588, 32, 50, 52264], area = 76,
        contract = [50, 48, 50, 52, 45, 48, 55, 45, 48, 50], amount = [50, 55, 44, 48, 48, 48]\<rparr>,
      \<lparr>danji = [54392, 47480, 50724, 54588, 49828, 53588], area = 80,
        contract = [50, 48, 50, 52, 45, 48, 55, 45, 50, 48], amount = [49, 57, 44, 48, 48, 48]\<rparr>] [54620, 48731, 50724, 54588, 49828, 53588] 80 =
     [\<lparr>c_danji = [54620, 48731, 50724, 54588, 49828, 53588], c_area = 84,
        c_date = 20240315, c_amount = [50, 53, 44, 48, 48, 48], c_diff = 4\<rparr>,
      \<lparr>c_danji = [54620, 48731, 50724, 54588, 49828, 53588, 32, 50, 52264], c_area = 76,
        c_date = 20240702, c_amount = [50, 55, 44, 48, 48, 48], c_diff = 4\<rparr>] \<and>
   get_latest_officetel_trade sample_env
     (\<lambda>month. if month = 3 then Inr [\<lparr>offiNm = Some [54620, 48731, 50724, 54588, 49828, 53588], excluUseAr = Some [56, 52], dealYear = Some [50, 48, 50, 52],
        dealMonth = Some [48, 51], dealDay = Some [49, 53], dealAmount = Some [50, 53, 44, 48, 48, 48]\<rparr>,
        \<lparr>offiNm = None, excluUseAr = Some [56, 48], dealYear = Some [50, 48, 50, 52],
        dealMonth = Some [48, 51], dealDay = Some [48, 49], dealAmount = Some [50, 49, 44, 48, 48, 48]\<rparr>]
      else if month = 7 then Inr [\<lparr>offiNm = Some [54620, 48731, 50724, 54588, 49828, 53588, 32, 50, 52264], excluUseAr = Some [55, 54], dealYear = Some [50, 48, 50, 52],
        dealMonth = Some [48, 55], dealDay = Some [48, 50], dealAmount = Some [50, 55, 44, 48, 48, 48]\<rparr>,
        \<lparr>offiNm = Some [54392, 47480, 50724, 54588, 49828, 53588], excluUseAr = Some [56, 48], dealYear = Some [50, 48, 50, 52],
        dealMonth = Some [48, 55], dealDay = Some [50, 48], dealAmount = Some [49, 57, 44, 48, 48, 48]\<rparr>] else Inr [])
     [54620, 48731, 50724, 54588, 49828, 53588] 80 =
   Inr (Some \<lparr>c_danji = [54620, 48731, 50724, 54588, 49828, 53588, 32, 50, 52264], c_area = 76,
        c_date = 20240702, c_amount = [50, 55, 44, 48, 48, 48], c_diff = 4\<rparr>)"
proof -
  let ?fetch = "\<lambda>month::nat. if month = 3 then Inr [\<lparr>offiNm = Some [54620, 48731, 50724, 54588, 49828, 53588], excluUseAr = Some [56, 52], dealYear = Some [50, 48, 50, 52],
        dealMonth = Some [48, 51], dealDay = Some [49, 53], dealAmount = Some [50, 53, 44, 48, 48, 48]\<rparr>,
        \<lparr>offiNm = None, excluUseAr = Some [56, 48], dealYear = Some [50, 48, 50, 52],
        dealMonth = Some [48, 51], dealDay = Some [48, 49], dealAmount = Some [50, 49, 44, 48, 48, 48]\<rparr>]
      else if month = 7 then Inr [\<lparr>offiNm = Some [54620, 48731, 50724, 54588, 49828, 53588, 32, 50, 52264], excluUseAr = Some [55, 54], dealYear = Some [50, 48, 50, 52],
        dealMonth = Some [48, 55], dealDay = Some [48, 50], dealAmount = Some [50, 55, 44, 48, 48, 48]\<rparr>,
        \<lparr>offiNm = Some [54392, 47480, 50724, 54588, 49828, 53588], excluUseAr = Some [56, 48], dealYear = Some [50, 48, 50, 52],
        dealMonth = Some [48, 55], dealDay = Some [50, 48], dealAmount = Some [49, 57, 44, 48, 48, 48]\<rparr>] else Inr []"
  let ?result = "[\<lparr>danji = [54620, 48731, 50724, 54588, 49828, 53588], area = 84,
        contract = [50, 48, 50, 52, 45, 48, 51, 45, 49, 53], amount = [50, 53, 44, 48, 48, 48]\<rparr>,
      \<lparr>danji = [54620, 48731, 50724, 54588, 49828, 53588, 32, 50, 52264], area = 76,
        contract = [50, 48, 50, 52, 45, 48, 55, 45, 48, 50], amount = [50, 55, 44, 48, 48, 48]\<rparr>,
      \<lparr>danji = [54392, 47480, 50724, 54588, 49828, 53588], area = 80,
        contract = [50, 48, 50, 52, 45, 48, 55, 45, 50, 48], amount = [49, 57, 44, 48, 48, 48]\<rparr>]"
  let ?bn = "[54620, 48731, 50724, 54588, 49828, 53588]"
  have l: "literal_pattern ?bn" by code_simp
  have m: "months_loop sample_env [] (map ?fetch [1 ..< 13]) = Inr ?result" by code_simp
  have d: "df_filtered sample_env ?result ?bn 80 =
     [\<lparr>c_danji = [54620, 48731, 50724, 54588, 49828, 53588], c_area = 84,
        c_date = 20240315, c_amount = [50, 53, 44, 48, 48, 48], c_diff = 4\<rparr>,
      \<lparr>c_danji = [54620, 48731, 50724, 54588, 49828, 53588, 32, 50, 52264], c_area = 76,
        c_date = 20240702, c_amount = [50, 55, 44, 48, 48, 48], c_diff = 4\<rparr>]" by code_simp
  have "set (df_filtered sample_env ?result ?bn 80) \<noteq> {}" unfolding d by simp
  then have c: "spec_candidates sample_env ?result ?bn 80 \<noteq> {}"
    unfolding set_df_filtered .
  have v: "get_latest_officetel_trade sample_env ?fetch ?bn 80 =
     Inr (Some \<lparr>c_danji = [54620, 48731, 50724, 54588, 49828, 53588, 32, 50, 52264], c_area = 76,
        c_date = 20240702, c_amount = [50, 55, 44, 48, 48, 48], c_diff = 4\<rparr>)" by code_simp
  from best_match_is_closest_then_latest [OF l m c] l m d v show ?thesis by simp
qed

end
